theory Spec2Isabelle
  imports Complex_Main "HOL-Library.Word"
begin

section \<open>Chunked video upload: a shallow embedding\<close>

text \<open>
  The development follows the chunked upload service: \<open>initializeChunkedUpload\<close>,
  \<open>uploadChunk\<close>, \<open>completeChunkedUpload\<close>, \<open>cleanupChunks\<close> and
  \<open>uploadVideoInChunks\<close>, together with \<open>getBucketForFileType\<close> of the storage
  configuration. JavaScript numbers that hold lengths, sizes of what was received and
  indices of chunk records are natural numbers; numbers computed from the environment
  (chunk size, concurrency, timeout, the chunk count and the loop variables of the
  scheduler) are integers, since nothing keeps them positive; delays and ratios are
  reals. Exceptions are values of the type \<open>error\<close>,
  and every function that can throw returns \<open>error + result\<close> next to the world it
  leaves behind.
\<close>

subsection \<open>Strings\<close>

type_synonym byte = "8 word"

definition startsWith :: "string \<Rightarrow> string \<Rightarrow> bool" where
  "startsWith s p = (take (length p) s = p)"

definition endsWith :: "string \<Rightarrow> string \<Rightarrow> bool" where
  "endsWith s p = (length p \<le> length s \<and> drop (length s - length p) s = p)"

fun str_includes :: "string \<Rightarrow> string \<Rightarrow> bool" where
  "str_includes [] p = (p = [])"
| "str_includes (c # s) p = (startsWith (c # s) p \<or> str_includes s p)"

text \<open>Case folding of the regular expression flag \<open>i\<close>: only ASCII letters fold.\<close>

definition toLowerAscii :: "char \<Rightarrow> char" where
  "toLowerAscii c =
     (case map_of (zip ''ABCDEFGHIJKLMNOPQRSTUVWXYZ'' ''abcdefghijklmnopqrstuvwxyz'') c of
        Some l \<Rightarrow> l
      | None \<Rightarrow> c)"

text \<open>Decimal rendering of a number (\<open>toString\<close>), and \<open>padStart(k, '0')\<close>.\<close>

definition digit :: "nat \<Rightarrow> char" where
  "digit d = ''0123456789'' ! d"

fun toString :: "nat \<Rightarrow> string" where
  "toString n = (if n < 10 then [digit n] else toString (n div 10) @ [digit (n mod 10)])"

declare toString.simps [simp del]

definition padStart :: "nat \<Rightarrow> char \<Rightarrow> string \<Rightarrow> string" where
  "padStart k c s = replicate (k - length s) c @ s"

text \<open>
  \<open>path.extname\<close> of Node (POSIX flavour): trailing slashes are skipped, the last
  path segment is taken, and the extension runs from its last dot to its end; a segment
  without a dot, a segment whose only dot is its first character, and the segment
  \<open>..\<close> have the empty extension.
\<close>

definition lastSegment :: "string \<Rightarrow> string" where
  "lastSegment p =
     rev (takeWhile (\<lambda>c. c \<noteq> CHR ''/'') (dropWhile (\<lambda>c. c = CHR ''/'') (rev p)))"

definition extname :: "string \<Rightarrow> string" where
  "extname p =
     (let seg = lastSegment p;
          ext = rev (takeWhile (\<lambda>c. c \<noteq> CHR ''.'') (rev seg))
      in if CHR ''.'' \<notin> set seg then []
         else if length ext + 1 = length seg then []
         else if seg = ''..'' then []
         else CHR ''.'' # ext)"

subsection \<open>Configuration\<close>

text \<open>
  \<open>CHUNK_SIZE\<close>, \<open>MAX_CONCURRENT_CHUNKS\<close> and \<open>CHUNK_TIMEOUT\<close> are read from the
  process environment as \<open>parseInt(process.env.X) || default\<close>: an unset or unparsable
  variable (\<open>None\<close>, where \<open>parseInt\<close> gives \<open>NaN\<close>) and the value 0 both give the
  default; every other integer, a negative one too, is taken as it is. The other
  settings are constants.
\<close>

record settings =
  env_CHUNK_SIZE :: "int option"
  env_MAX_CONCURRENT_CHUNKS :: "int option"
  env_CHUNK_TIMEOUT :: "int option"

definition orDefault :: "int option \<Rightarrow> int \<Rightarrow> int" where
  "orDefault v d = (case v of None \<Rightarrow> d | Some n \<Rightarrow> if n = 0 then d else n)"

definition CHUNK_SIZE :: "settings \<Rightarrow> int" where
  "CHUNK_SIZE e = orDefault (env_CHUNK_SIZE e) (10 * 1024 * 1024)"

definition MAX_CONCURRENT_CHUNKS :: "settings \<Rightarrow> int" where
  "MAX_CONCURRENT_CHUNKS e = orDefault (env_MAX_CONCURRENT_CHUNKS e) 2"

definition CHUNK_TIMEOUT :: "settings \<Rightarrow> int" where
  "CHUNK_TIMEOUT e = orDefault (env_CHUNK_TIMEOUT e) 300000"

definition MAX_RETRIES :: nat where
  "MAX_RETRIES = 5"

definition RETRY_DELAY_BASE :: real where
  "RETRY_DELAY_BASE = 2000"

definition BUCKET_IMAGES :: string where "BUCKET_IMAGES = ''images''"
definition BUCKET_VIDEOS :: string where "BUCKET_VIDEOS = ''videos''"
definition BUCKET_DOCUMENTS :: string where "BUCKET_DOCUMENTS = ''documents''"
definition BUCKET_PROFILES :: string where "BUCKET_PROFILES = ''profiles''"
definition BUCKET_COURSES :: string where "BUCKET_COURSES = ''courses''"
definition BUCKET_CHAT :: string where "BUCKET_CHAT = ''chat-files''"

definition ALLOWED_IMAGES :: "string list" where
  "ALLOWED_IMAGES = [''image/jpeg'', ''image/jpg'', ''image/png'', ''image/gif'', ''image/webp'']"

definition ALLOWED_VIDEOS :: "string list" where
  "ALLOWED_VIDEOS = [''video/mp4'', ''video/mpeg'', ''video/quicktime'', ''video/x-msvideo'',
     ''video/webm'', ''video/x-matroska'', ''video/x-flv'', ''video/x-ms-wmv'',
     ''application/octet-stream'']"

definition ALLOWED_DOCUMENTS :: "string list" where
  "ALLOWED_DOCUMENTS = [''application/pdf'', ''application/msword'',
     ''application/vnd.openxmlformats-officedocument.wordprocessingml.document'']"

subsection \<open>Media classification\<close>

definition VIDEO_EXTENSIONS :: "string list" where
  "VIDEO_EXTENSIONS = [''mp4'', ''mov'', ''avi'', ''wmv'', ''mkv'', ''flv'', ''webm'']"

text \<open>The test \<open>/\.(mp4|mov|avi|wmv|mkv|flv|webm)$/i\<close> on a file name.\<close>

definition hasExtension :: "string \<Rightarrow> string \<Rightarrow> bool" where
  "hasExtension name ext = endsWith (map toLowerAscii name) (CHR ''.'' # ext)"

definition hasVideoExtension :: "string \<Rightarrow> bool" where
  "hasVideoExtension name = list_ex (hasExtension name) VIDEO_EXTENSIONS"

text \<open>
  \<open>getBucketForFileType(mimetype, folder = '', originalname = '')\<close>. A string used as
  a condition is true when it is not empty.
\<close>

definition getBucketForFileType :: "string \<Rightarrow> string \<Rightarrow> string \<Rightarrow> string" where
  "getBucketForFileType mt fld name =
     (let isVideoByMimetype = (mt \<in> set ALLOWED_VIDEOS);
          isVideoByExtension = (name \<noteq> [] \<and> hasVideoExtension name);
          isMkvFile = (name \<noteq> [] \<and> hasExtension name ''mkv'');
          isOctetStreamMkv = (mt = ''application/octet-stream'' \<and> isMkvFile)
      in if isVideoByMimetype \<or> isVideoByExtension \<or> isOctetStreamMkv then BUCKET_VIDEOS
         else if mt \<in> set ALLOWED_DOCUMENTS then BUCKET_DOCUMENTS
         else if mt \<in> set ALLOWED_IMAGES then
           (if fld \<noteq> [] \<and> str_includes fld ''profile'' then BUCKET_PROFILES
            else if fld \<noteq> [] \<and> (str_includes fld ''course'' \<or> fld = ''courses'') then BUCKET_COURSES
            else if fld \<noteq> [] \<and> str_includes fld ''chat'' then BUCKET_CHAT
            else BUCKET_IMAGES)
         else BUCKET_IMAGES)"

text \<open>The uploaded file as the HTTP layer hands it over; \<open>buffer\<close> is \<open>None\<close> when
  the field is missing or is not a Buffer.\<close>

record upload_file =
  buffer :: "byte list option"
  file_mimetype :: string
  originalname :: string
  file_size :: nat

definition isVideo :: "upload_file \<Rightarrow> bool" where
  "isVideo f =
     (let isVideoByMimetype = startsWith (file_mimetype f) ''video/'';
          isVideoByExtension = (originalname f \<noteq> [] \<and> hasVideoExtension (originalname f));
          isMkvFile = (originalname f \<noteq> [] \<and> hasExtension (originalname f) ''mkv'');
          isOctetStreamMkv = (file_mimetype f = ''application/octet-stream'' \<and> isMkvFile)
      in isVideoByMimetype \<or> isVideoByExtension \<or> isOctetStreamMkv)"

subsection \<open>Errors\<close>

text \<open>
  A thrown \<open>Error\<close> is kept structured instead of as its message text:
  \<^item> \<open>Error m\<close>: \<open>new Error(m)\<close> with a literal message, or an exception of the
    storage client or the persistence layer with message \<open>m\<close>;
  \<^item> \<open>NetworkError m\<close>, \<open>ChunkTooLarge m\<close>, \<open>SupabaseUploadError m\<close>: the three
    messages that \<open>uploadChunk\<close> builds around the message \<open>m\<close> of a storage error;
  \<^item> \<open>RetriesExhausted index attempts lastError size bucket timestamp\<close>: the error
    thrown after the last attempt, with the fields of its \<open>errorDetails\<close>
    (\<open>chunkSizeMB\<close> repeats the size and \<open>awsOptimized\<close> is constant);
  \<^item> \<open>NotAllChunksUploaded uploaded total\<close>, \<open>UploadIncomplete uploaded total\<close>: the
    two messages that report counts;
  \<^item> \<open>InitializeFailed\<close>, \<open>UploadChunkFailed index\<close>, \<open>CompleteFailed\<close>,
    \<open>BatchFailed n\<close>, \<open>ChunkedVideoUploadFailed\<close>: the errors that the \<open>catch\<close>
    blocks throw around the error they caught; \<open>n\<close> is the number that the batch
    message prints.
\<close>

datatype error =
    Error string
  | NetworkError string
  | ChunkTooLarge string
  | SupabaseUploadError string
  | RetriesExhausted nat nat error nat string nat
  | NotAllChunksUploaded nat int
  | UploadIncomplete nat int
  | InitializeFailed error
  | UploadChunkFailed nat error
  | CompleteFailed error
  | BatchFailed int error
  | ChunkedVideoUploadFailed error

subsection \<open>Session records, storage objects and the world\<close>

record chunk =
  chunkIndex :: nat
  chunkPath :: string
  chunk_size :: nat
  uploadedAt :: nat
  uploadAttempts :: nat

record ChunkedVideo =
  videoId :: string
  originalFilename :: string
  totalSize :: nat
  totalChunks :: int
  chunkSize :: int
  mimetype :: string
  bucket :: string
  folder :: string
  uploadedChunks :: "chunk list"
  uploadProgress :: real
  isComplete :: bool
  finalVideoUrl :: "string option"
  completedAt :: "nat option"
  maxConcurrentChunks :: int
  chunkTimeout :: int

record chunk_url =
  cu_index :: nat
  cu_url :: string
  cu_size :: nat
  cu_uploadAttempts :: nat

record manifest =
  m_videoId :: string
  m_originalFilename :: string
  m_totalSize :: nat
  m_totalChunks :: int
  m_chunkSize :: int
  m_mimetype :: string
  m_chunks :: "chunk_url list"
  m_completedAt :: nat
  m_maxConcurrentChunks :: int
  m_totalUploadAttempts :: nat
  m_averageUploadAttempts :: real

datatype payload = Bytes "byte list" | ManifestJson manifest

text \<open>What the storage backend and the timer are asked to do, in order.\<close>

datatype call =
    Upload string string payload bool
  | Remove string "string list"
  | Sleep real

text \<open>
  How a storage call raced against its timeout settles: the environment decides.
  \<open>Stored\<close>/\<open>Removed\<close>: the call resolves without error; \<open>NoPath\<close>: it resolves
  with neither error nor path; \<open>Refused m\<close>: it resolves with an error object of
  message \<open>m\<close>; \<open>Rejected m\<close>: the promise rejects; \<open>TimedOut\<close>: the timeout wins.
\<close>

datatype upload_outcome = Stored | NoPath | Refused string | Rejected string | TimedOut

datatype remove_outcome = Removed | RemoveRefused string | RemoveRejected string | RemoveTimedOut

text \<open>
  The world: the session collection, the stored objects, the calls made so far, the
  lines written with \<open>console.error\<close> and \<open>console.warn\<close>, and what the environment
  will answer next. Each answer is a sequence, read at 0 and then shifted:
  \<open>upload_fate\<close> and \<open>remove_fate\<close> for storage calls, \<open>db_fate\<close> for the
  persistence layer (\<open>Some m\<close>: the call throws), \<open>clock\<close> for \<open>Date.now()\<close> and
  \<open>new Date()\<close>, \<open>random\<close> for \<open>Math.random()\<close>, \<open>ids\<close> for
  \<open>crypto.randomBytes(16).toString('hex')\<close>, \<open>metadata\<close> for the duration
  that \<open>extractVideoMetadata\<close> finds (\<open>Inl m\<close>: it throws). \<open>publicUrl\<close> is the
  storage client's \<open>getPublicUrl\<close>. Of the console only the lines of errors and
  warnings are kept, each as its label (without the emoji that some labels start with)
  and the error it prints.
\<close>

record world =
  db :: "string \<rightharpoonup> ChunkedVideo"
  objects :: "string \<times> string \<rightharpoonup> payload"
  calls :: "call list"
  console :: "(string \<times> error) list"
  upload_fate :: "nat \<Rightarrow> upload_outcome"
  remove_fate :: "nat \<Rightarrow> remove_outcome"
  db_fate :: "nat \<Rightarrow> string option"
  clock :: "nat \<Rightarrow> nat"
  random :: "nat \<Rightarrow> real"
  ids :: "nat \<Rightarrow> string"
  metadata :: "nat \<Rightarrow> string + real"
  sched :: "nat \<Rightarrow> nat"
  publicUrl :: "string \<Rightarrow> string \<Rightarrow> string"

definition shift :: "(nat \<Rightarrow> 'a) \<Rightarrow> nat \<Rightarrow> 'a" where
  "shift f = (\<lambda>n. f (Suc n))"

definition dateNow :: "world \<Rightarrow> nat \<times> world" where
  "dateNow w = (clock w 0, w\<lparr>clock := shift (clock w)\<rparr>)"

definition mathRandom :: "world \<Rightarrow> real \<times> world" where
  "mathRandom w = (random w 0, w\<lparr>random := shift (random w)\<rparr>)"

definition generateVideoId :: "world \<Rightarrow> string \<times> world" where
  "generateVideoId w = (ids w 0, w\<lparr>ids := shift (ids w)\<rparr>)"

definition extractVideoMetadata :: "world \<Rightarrow> (string + real) \<times> world" where
  "extractVideoMetadata w = (metadata w 0, w\<lparr>metadata := shift (metadata w)\<rparr>)"

definition console_error :: "string \<Rightarrow> error \<Rightarrow> world \<Rightarrow> world" where
  "console_error label err w = w\<lparr>console := console w @ [(label, err)]\<rparr>"

definition sleep :: "real \<Rightarrow> world \<Rightarrow> world" where
  "sleep ms w = w\<lparr>calls := calls w @ [Sleep ms]\<rparr>"

text \<open>
  Modelled from the spec: \<open>findOne\<close> of the session model, which is not among the
  sources (\<open>findById(id) -> session|null\<close>). The call throws or answers.
\<close>

definition findOne :: "string \<Rightarrow> world \<Rightarrow> (error + ChunkedVideo option) \<times> world" where
  "findOne vid w =
     (let w1 = w\<lparr>db_fate := shift (db_fate w)\<rparr>
      in case db_fate w 0 of
           Some m \<Rightarrow> (Inl (Error m), w1)
         | None \<Rightarrow> (Inr (db w vid), w1))"

text \<open>
  Modelled from the spec: \<open>save\<close> of the session model (\<open>save(session)\<close>). The call
  throws or stores the session under its id.
\<close>

definition save :: "ChunkedVideo \<Rightarrow> world \<Rightarrow> (error + unit) \<times> world" where
  "save cv w =
     (let w1 = w\<lparr>db_fate := shift (db_fate w)\<rparr>
      in case db_fate w 0 of
           Some m \<Rightarrow> (Inl (Error m), w1)
         | None \<Rightarrow> (Inr (), w1\<lparr>db := (db w)(videoId cv \<mapsto> cv)\<rparr>))"

text \<open>
  Modelled from the spec: \<open>deleteOne\<close> of the session model (\<open>deleteById(id)\<close>). The
  call throws or removes the session.
\<close>

definition deleteOne :: "string \<Rightarrow> world \<Rightarrow> (error + unit) \<times> world" where
  "deleteOne vid w =
     (let w1 = w\<lparr>db_fate := shift (db_fate w)\<rparr>
      in case db_fate w 0 of
           Some m \<Rightarrow> (Inl (Error m), w1)
         | None \<Rightarrow> (Inr (), w1\<lparr>db := (db w)(vid := None)\<rparr>))"

text \<open>
  Modelled from the spec: \<open>upload\<close> of the storage backend, which the repository only
  calls (\<open>put(bucket, path, bytes, contentType) -> path | error\<close>). A call that
  resolves without error has stored the object and returns the path it was given; any
  other outcome leaves the objects as they were.
\<close>

definition storage_upload ::
  "string \<Rightarrow> string \<Rightarrow> payload \<Rightarrow> bool \<Rightarrow> world \<Rightarrow> upload_outcome \<times> world" where
  "storage_upload b p pl upsert w =
     (let w1 = w\<lparr>calls := calls w @ [Upload b p pl upsert], upload_fate := shift (upload_fate w)\<rparr>
      in case upload_fate w 0 of
           Stored \<Rightarrow> (Stored, w1\<lparr>objects := (objects w)((b, p) \<mapsto> pl)\<rparr>)
         | other \<Rightarrow> (other, w1))"

text \<open>
  Modelled from the spec: \<open>remove\<close> of the storage backend
  (\<open>remove(bucket, [paths]) -> ok | error\<close>). A call that resolves without error has
  removed the listed objects of the bucket; any other outcome removes nothing.
\<close>

definition storage_remove ::
  "string \<Rightarrow> string list \<Rightarrow> world \<Rightarrow> remove_outcome \<times> world" where
  "storage_remove b ps w =
     (let w1 = w\<lparr>calls := calls w @ [Remove b ps], remove_fate := shift (remove_fate w)\<rparr>
      in case remove_fate w 0 of
           Removed \<Rightarrow> (Removed, w1\<lparr>objects := (\<lambda>k. if fst k = b \<and> snd k \<in> set ps then None else objects w k)\<rparr>)
         | other \<Rightarrow> (other, w1))"

text \<open>
  Modelled from the spec: \<open>calculateProgress\<close> of the session model, which is not among
  the sources (\<open>progressPercent == uploadedChunks.size/totalChunks*100\<close>). With
  \<open>totalChunks = 0\<close> the quotient is not a number in JavaScript and 0 here.
\<close>

definition calculateProgress :: "ChunkedVideo \<Rightarrow> ChunkedVideo" where
  "calculateProgress cv =
     cv\<lparr>uploadProgress := real (length (uploadedChunks cv)) / real_of_int (totalChunks cv) * 100\<rparr>"

text \<open>
  Modelled from the spec: \<open>checkCompletion\<close> of the session model
  (\<open>isComplete \<Leftrightarrow> uploadedChunks.size == totalChunks\<close>).
\<close>

definition checkCompletion :: "ChunkedVideo \<Rightarrow> ChunkedVideo" where
  "checkCompletion cv = cv\<lparr>isComplete := (int (length (uploadedChunks cv)) = totalChunks cv)\<rparr>"

subsection \<open>initializeChunkedUpload\<close>

record init_result =
  ir_videoId :: string
  ir_totalChunks :: int
  ir_chunkSize :: int
  ir_maxConcurrentChunks :: int

definition initializeChunkedUpload_try ::
  "settings \<Rightarrow> upload_file \<Rightarrow> string \<Rightarrow> world \<Rightarrow> (error + init_result) \<times> world" where
  "initializeChunkedUpload_try e f fld w =
     (case buffer f of
        None \<Rightarrow> (Inl (Error ''Invalid file buffer''), w)
      | Some buf \<Rightarrow>
          if \<not> isVideo f then (Inl (Error ''File must be a video''), w)
          else
            (let vid = fst (generateVideoId w);
                 w1 = snd (generateVideoId w);
                 total = file_size f;
                 tc = \<lceil>real total / real_of_int (CHUNK_SIZE e)\<rceil>;
                 bkt = getBucketForFileType (file_mimetype f) fld [];
                 cv = \<lparr>videoId = vid, originalFilename = originalname f, totalSize = total,
                       totalChunks = tc, chunkSize = CHUNK_SIZE e, mimetype = file_mimetype f,
                       bucket = bkt, folder = fld, uploadedChunks = [], uploadProgress = 0,
                       isComplete = False, finalVideoUrl = None, completedAt = None,
                       maxConcurrentChunks = MAX_CONCURRENT_CHUNKS e,
                       chunkTimeout = CHUNK_TIMEOUT e\<rparr>
             in case save cv w1 of
                  (Inl err, w2) \<Rightarrow> (Inl err, w2)
                | (Inr _, w2) \<Rightarrow>
                    (Inr \<lparr>ir_videoId = vid, ir_totalChunks = tc, ir_chunkSize = CHUNK_SIZE e,
                          ir_maxConcurrentChunks = MAX_CONCURRENT_CHUNKS e\<rparr>, w2)))"

definition initializeChunkedUpload ::
  "settings \<Rightarrow> upload_file \<Rightarrow> string \<Rightarrow> world \<Rightarrow> (error + init_result) \<times> world" where
  "initializeChunkedUpload e f fld w =
     (case initializeChunkedUpload_try e f fld w of
        (Inl err, w1) \<Rightarrow>
          (Inl (InitializeFailed err),
           console_error ''Error initializing AWS-optimized chunked upload:'' err w1)
      | (Inr r, w1) \<Rightarrow> (Inr r, w1))"

subsection \<open>uploadChunk\<close>

datatype chunk_result =
    AlreadyUploaded nat string
  | Uploaded nat string real bool nat

text \<open>
  \<open>AlreadyUploaded chunkIndex chunkPath\<close> is the result with status
  \<open>already_uploaded\<close>; \<open>Uploaded chunkIndex chunkPath progress isComplete
  uploadAttempts\<close> the one with status \<open>uploaded\<close>.
\<close>

definition chunkFilename :: "string \<Rightarrow> string \<Rightarrow> nat \<Rightarrow> nat \<Rightarrow> string \<Rightarrow> string" where
  "chunkFilename fld vid ts idx ext =
     fld @ ''/chunks/'' @ vid @ ''/'' @ toString ts @ ''_chunk_''
       @ padStart 4 (CHR ''0'') (toString idx) @ ext"

definition classifyStorageError :: "string \<Rightarrow> error" where
  "classifyStorageError m =
     (if str_includes m ''network'' \<or> str_includes m ''timeout'' \<or> str_includes m ''ECONNRESET''
      then NetworkError m
      else if str_includes m ''413'' \<or> str_includes m ''too large'' then ChunkTooLarge m
      else SupabaseUploadError m)"

text \<open>The body of the \<open>try\<close> inside the retry loop: one raced upload.\<close>

definition uploadAttempt ::
  "string \<Rightarrow> string \<Rightarrow> byte list \<Rightarrow> nat \<Rightarrow> nat \<Rightarrow> world \<Rightarrow> (error + string) \<times> world" where
  "uploadAttempt b fname buf idx n w =
     (case storage_upload b fname (Bytes buf) False w of
        (Stored, w1) \<Rightarrow> (Inr fname, w1)
      | (NoPath, w1) \<Rightarrow>
          (Inl (Error ''Invalid response from Supabase storage - no path returned''), w1)
      | (Refused m, w1) \<Rightarrow>
          (Inl (classifyStorageError m),
           console_error (''AWS Supabase storage error for chunk '' @ toString idx
                          @ '' (attempt '' @ toString n @ ''):'') (Error m) w1)
      | (Rejected m, w1) \<Rightarrow> (Inl (Error m), w1)
      | (TimedOut, w1) \<Rightarrow> (Inl (Error ''AWS chunk upload timeout''), w1))"

definition waitTime :: "nat \<Rightarrow> real \<Rightarrow> real" where
  "waitTime uploadAttempts_n r =
     (let baseDelay = RETRY_DELAY_BASE * 2 ^ (uploadAttempts_n - 1);
          jitter = r * 2000
      in min (baseDelay + jitter) 30000)"

text \<open>
  The loop \<open>while (uploadAttempts < MAX_RETRIES && !uploadSuccess)\<close>, entered with
  \<open>uploadAttempts = attempts\<close>. It returns the chunk path and the attempts used, or
  the error that the last attempt throws out of the loop.
\<close>

function uploadWithRetry ::
  "string \<Rightarrow> string \<Rightarrow> byte list \<Rightarrow> nat \<Rightarrow> nat \<Rightarrow> world \<Rightarrow> (error + string \<times> nat) \<times> world" where
  "uploadWithRetry b fname buf idx attempts w =
     (if attempts < MAX_RETRIES then
        (case uploadAttempt b fname buf idx (attempts + 1) w of
           (Inr p, w1) \<Rightarrow> (Inr (p, attempts + 1), w1)
         | (Inl uploadError, w1) \<Rightarrow>
             (let w2 = console_error (''AWS attempt '' @ toString (attempts + 1)
                                       @ '' failed for chunk '' @ toString idx @ '':'')
                                     uploadError w1
              in if attempts + 1 < MAX_RETRIES then
                   uploadWithRetry b fname buf idx (attempts + 1)
                     (sleep (waitTime (attempts + 1) (fst (mathRandom w2))) (snd (mathRandom w2)))
                 else
                   (Inl (RetriesExhausted idx (attempts + 1) uploadError (length buf) b
                           (fst (dateNow w2))),
                    snd (dateNow w2))))
      else (Inr ([], attempts), w))"
  by pat_completeness auto
termination
  by (relation "measure (\<lambda>(b, fname, buf, idx, attempts, w). MAX_RETRIES - attempts)") auto

declare uploadWithRetry.simps [simp del]

text \<open>
  The calls of \<open>k\<close> failed attempts that are not the last, each followed by its wait:
  the loop is entered with \<open>uploadAttempts = a\<close>, and \<open>rnd\<close> is the sequence of
  \<open>Math.random()\<close> values.
\<close>

abbreviation retry_calls ::
  "string \<Rightarrow> string \<Rightarrow> byte list \<Rightarrow> nat \<Rightarrow> (nat \<Rightarrow> real) \<Rightarrow> nat \<Rightarrow> call list" where
  "retry_calls b fname buf a rnd k \<equiv>
     concat (map (\<lambda>j. [Upload b fname (Bytes buf) False, Sleep (waitTime (a + j + 1) (rnd j))])
               [0..<k])"

definition uploadChunk_try ::
  "string \<Rightarrow> nat \<Rightarrow> byte list \<Rightarrow> world \<Rightarrow> (error + chunk_result) \<times> world" where
  "uploadChunk_try vid idx buf w =
     (case findOne vid w of
        (Inl err, w1) \<Rightarrow> (Inl err, w1)
      | (Inr None, w1) \<Rightarrow> (Inl (Error ''Chunked video record not found''), w1)
      | (Inr (Some cv), w1) \<Rightarrow>
          (case find (\<lambda>c. chunkIndex c = idx) (uploadedChunks cv) of
             Some existingChunk \<Rightarrow> (Inr (AlreadyUploaded idx (chunkPath existingChunk)), w1)
           | None \<Rightarrow>
               (let extension = extname (originalFilename cv);
                    timestamp = fst (dateNow w1);
                    w2 = snd (dateNow w1);
                    fname = chunkFilename (folder cv) vid timestamp idx extension
                in case uploadWithRetry (bucket cv) fname buf idx 0 w2 of
                     (Inl err, w3) \<Rightarrow> (Inl err, w3)
                   | (Inr (p, attempts), w3) \<Rightarrow>
                       (let pushed = cv\<lparr>uploadedChunks := uploadedChunks cv @
                                       [\<lparr>chunkIndex = idx, chunkPath = p, chunk_size = length buf,
                                         uploadedAt = fst (dateNow w3), uploadAttempts = attempts\<rparr>]\<rparr>;
                            w4 = snd (dateNow w3);
                            cv' = checkCompletion (calculateProgress pushed)
                        in case save cv' w4 of
                             (Inl err, w5) \<Rightarrow> (Inl err, w5)
                           | (Inr _, w5) \<Rightarrow>
                               (Inr (Uploaded idx p (uploadProgress cv') (isComplete cv') attempts),
                                w5)))))"

definition uploadChunk ::
  "string \<Rightarrow> nat \<Rightarrow> byte list \<Rightarrow> world \<Rightarrow> (error + chunk_result) \<times> world" where
  "uploadChunk vid idx buf w =
     (case uploadChunk_try vid idx buf w of
        (Inl err, w1) \<Rightarrow>
          (Inl (UploadChunkFailed idx err),
           console_error (''AWS error uploading chunk '' @ toString idx @ '':'') err w1)
      | (Inr r, w1) \<Rightarrow> (Inr r, w1))"

subsection \<open>completeChunkedUpload\<close>

record completed =
  c_videoId :: string
  secure_url :: string
  public_id :: string
  format :: string
  c_bucket :: string
  c_size :: nat
  original_filename :: string
  chunks :: "chunk_url list"
  manifestUrl :: string
  totalAttempts :: nat
  averageAttempts :: real
  c_maxConcurrentChunks :: int
  duration :: "real option"

text \<open>
  \<open>Completed r\<close> is the result object with status \<open>completed\<close> (its \<open>path\<close> and
  \<open>fullPath\<close> repeat \<open>public_id\<close>; \<open>duration\<close> is added by
  \<open>uploadVideoInChunks\<close>); \<open>AlreadyCompleted videoId secure_url chunks\<close> the one
  with status \<open>already_completed\<close>.
\<close>

datatype complete_result =
    Completed completed
  | AlreadyCompleted string string "chunk list"

definition attemptsOr1 :: "chunk \<Rightarrow> nat" where
  "attemptsOr1 c = (if uploadAttempts c = 0 then 1 else uploadAttempts c)"

definition manifestFilename :: "string \<Rightarrow> string \<Rightarrow> string" where
  "manifestFilename fld vid = fld @ ''/manifests/aws_'' @ vid @ ''_manifest.json''"

text \<open>The manifest upload and its \<open>try\<close>/\<open>catch\<close>: a failure is a warning.\<close>

definition uploadManifest :: "string \<Rightarrow> string \<Rightarrow> manifest \<Rightarrow> world \<Rightarrow> world" where
  "uploadManifest b fname m w =
     (case storage_upload b fname (ManifestJson m) True w of
        (Refused msg, w1) \<Rightarrow>
          console_error ''AWS failed to upload manifest, continuing without it:'' (Error msg) w1
      | (Rejected msg, w1) \<Rightarrow>
          console_error ''AWS manifest upload failed, continuing without it:'' (Error msg) w1
      | (TimedOut, w1) \<Rightarrow>
          console_error ''AWS manifest upload failed, continuing without it:''
            (Error ''Manifest upload timeout'') w1
      | (_, w1) \<Rightarrow> w1)"

text \<open>
  The part of \<open>completeChunkedUpload\<close> after the test of \<open>finalVideoUrl\<close>: it
  sorts the chunk records in place, builds and uploads the manifest and saves the
  session. With no chunk records the average is not a number in JavaScript and 0 here.
\<close>

definition assembleManifest ::
  "settings \<Rightarrow> string \<Rightarrow> ChunkedVideo \<Rightarrow> world \<Rightarrow> (error + complete_result) \<times> world" where
  "assembleManifest e vid cv w1 =
     (let sortedChunks = sort_key chunkIndex (uploadedChunks cv);
          chunkUrls = map (\<lambda>c. \<lparr>cu_index = chunkIndex c,
                                  cu_url = publicUrl w1 (bucket cv) (chunkPath c),
                                  cu_size = chunk_size c,
                                  cu_uploadAttempts = attemptsOr1 c\<rparr>) sortedChunks;
          total = sum_list (map attemptsOr1 sortedChunks);
          mc = (if maxConcurrentChunks cv = 0 then MAX_CONCURRENT_CHUNKS e
                else maxConcurrentChunks cv);
          manifestData = \<lparr>m_videoId = vid, m_originalFilename = originalFilename cv,
            m_totalSize = totalSize cv, m_totalChunks = totalChunks cv,
            m_chunkSize = chunkSize cv, m_mimetype = mimetype cv, m_chunks = chunkUrls,
            m_completedAt = fst (dateNow w1), m_maxConcurrentChunks = mc,
            m_totalUploadAttempts = total,
            m_averageUploadAttempts = real total / real (length sortedChunks)\<rparr>;
          w2 = snd (dateNow w1);
          fname = manifestFilename (folder cv) vid;
          w3 = uploadManifest (bucket cv) fname manifestData w2;
          url = publicUrl w3 (bucket cv) fname;
          cv' = cv\<lparr>uploadedChunks := sortedChunks, finalVideoUrl := Some url,
                   completedAt := Some (fst (dateNow w3))\<rparr>;
          w4 = snd (dateNow w3)
      in case save cv' w4 of
           (Inl err, w5) \<Rightarrow> (Inl err, w5)
         | (Inr _, w5) \<Rightarrow>
             (Inr (Completed \<lparr>c_videoId = vid, secure_url = url, public_id = fname,
                     format = drop 1 (extname (originalFilename cv)),
                     c_bucket = bucket cv, c_size = totalSize cv,
                     original_filename = originalFilename cv, chunks = chunkUrls,
                     manifestUrl = url, totalAttempts = total,
                     averageAttempts = m_averageUploadAttempts manifestData,
                     c_maxConcurrentChunks = mc, duration = None\<rparr>), w5))"

text \<open>A string used as a condition is true when it is set and not empty.\<close>

definition completeChunkedUpload_try ::
  "settings \<Rightarrow> string \<Rightarrow> world \<Rightarrow> (error + complete_result) \<times> world" where
  "completeChunkedUpload_try e vid w =
     (case findOne vid w of
        (Inl err, w1) \<Rightarrow> (Inl err, w1)
      | (Inr None, w1) \<Rightarrow> (Inl (Error ''Chunked video record not found''), w1)
      | (Inr (Some cv), w1) \<Rightarrow>
          if \<not> isComplete cv then
            (Inl (NotAllChunksUploaded (length (uploadedChunks cv)) (totalChunks cv)), w1)
          else
            (case finalVideoUrl cv of
               None \<Rightarrow> assembleManifest e vid cv w1
             | Some u \<Rightarrow>
                 if u \<noteq> [] then
                   (Inr (AlreadyCompleted vid u (sort_key chunkIndex (uploadedChunks cv))), w1)
                 else assembleManifest e vid cv w1))"

definition completeChunkedUpload ::
  "settings \<Rightarrow> string \<Rightarrow> world \<Rightarrow> (error + complete_result) \<times> world" where
  "completeChunkedUpload e vid w =
     (case completeChunkedUpload_try e vid w of
        (Inl err, w1) \<Rightarrow>
          (Inl (CompleteFailed err), console_error ''AWS error completing chunked upload:'' err w1)
      | (Inr r, w1) \<Rightarrow> (Inr r, w1))"

subsection \<open>cleanupChunks\<close>

text \<open>The batched delete and its \<open>try\<close>/\<open>catch\<close>: a failure is logged.\<close>

definition removeChunkFiles :: "string \<Rightarrow> string list \<Rightarrow> world \<Rightarrow> world" where
  "removeChunkFiles b chunkPaths w =
     (case storage_remove b chunkPaths w of
        (Removed, w1) \<Rightarrow> w1
      | (RemoveRefused m, w1) \<Rightarrow> console_error ''AWS error deleting chunks:'' (Error m) w1
      | (RemoveRejected m, w1) \<Rightarrow> console_error ''AWS chunk deletion failed:'' (Error m) w1
      | (RemoveTimedOut, w1) \<Rightarrow>
          console_error ''AWS chunk deletion failed:'' (Error ''AWS cleanup timeout'') w1)"

definition cleanupChunks_try :: "string \<Rightarrow> bool \<Rightarrow> world \<Rightarrow> (error + unit) \<times> world" where
  "cleanupChunks_try vid force w =
     (case findOne vid w of
        (Inl err, w1) \<Rightarrow> (Inl err, w1)
      | (Inr None, w1) \<Rightarrow> (Inr (), w1)
      | (Inr (Some cv), w1) \<Rightarrow>
          if \<not> force \<and> isComplete cv then (Inr (), w1)
          else
            (let chunkPaths = map chunkPath (uploadedChunks cv);
                 w2 = (if length chunkPaths > 0 then removeChunkFiles (bucket cv) chunkPaths w1
                       else w1)
             in if force then deleteOne vid w2 else (Inr (), w2)))"

definition cleanupChunks :: "string \<Rightarrow> bool \<Rightarrow> world \<Rightarrow> (error + unit) \<times> world" where
  "cleanupChunks vid force w =
     (case cleanupChunks_try vid force w of
        (Inl err, w1) \<Rightarrow> (Inr (), console_error ''AWS error during cleanup:'' err w1)
      | (Inr _, w1) \<Rightarrow> (Inr (), w1))"

subsection \<open>uploadChunk, one \<open>await\<close> at a time\<close>

text \<open>
  JavaScript runs a function without interruption from one \<open>await\<close> to the next; at
  an \<open>await\<close> the function is suspended until what it waits for has settled, and
  other functions run in between. A started \<open>uploadChunk\<close> is therefore in one of
  these states:
  \<^item> \<open>AwaitFindOne\<close>: it waits for \<open>ChunkedVideo.findOne\<close>;
  \<^item> \<open>AwaitUpload chunkedVideo chunkFilename uploadAttempts\<close>: it waits for the race of
    the upload of attempt \<open>uploadAttempts\<close> against its timeout;
  \<^item> \<open>AwaitTimer chunkedVideo chunkFilename uploadAttempts waitTime\<close>: it waits for the
    timer between two attempts;
  \<^item> \<open>AwaitSave chunkedVideo chunkPath uploadAttempts\<close>: it waits for
    \<open>chunkedVideo.save()\<close>, the record being the one with the new chunk pushed;
  \<^item> \<open>Settled r\<close>: it has returned (\<open>Inr\<close>) or thrown (\<open>Inl\<close>).

  \<open>resume\<close> settles what the function waits for and runs it to its next
  \<open>await\<close>. A call of the persistence layer, of the storage client or of the timer
  takes effect, and is written to the list of calls, at the moment it settles.
\<close>

datatype member =
    AwaitFindOne
  | AwaitUpload ChunkedVideo string nat
  | AwaitTimer ChunkedVideo string nat real
  | AwaitSave ChunkedVideo string nat
  | Settled "error + chunk_result"

text \<open>The \<open>catch\<close> block of \<open>uploadChunk\<close>.\<close>

definition rejectChunk :: "nat \<Rightarrow> error \<Rightarrow> world \<Rightarrow> member \<times> world" where
  "rejectChunk idx err w =
     (Settled (Inl (UploadChunkFailed idx err)),
      console_error (''AWS error uploading chunk '' @ toString idx @ '':'') err w)"

text \<open>What follows the retry loop, up to \<open>await chunkedVideo.save()\<close>.\<close>

definition pushChunk ::
  "ChunkedVideo \<Rightarrow> nat \<Rightarrow> string \<Rightarrow> byte list \<Rightarrow> nat \<Rightarrow> world \<Rightarrow> member \<times> world" where
  "pushChunk cv idx p buf attempts w =
     (let pushed = cv\<lparr>uploadedChunks := uploadedChunks cv @
                      [\<lparr>chunkIndex = idx, chunkPath = p, chunk_size = length buf,
                        uploadedAt = fst (dateNow w), uploadAttempts = attempts\<rparr>]\<rparr>;
          cv' = checkCompletion (calculateProgress pushed)
      in (AwaitSave cv' p attempts, snd (dateNow w)))"

text \<open>The test of the retry loop, with \<open>uploadAttempts = attempts\<close> and no success yet.\<close>

definition enterLoop ::
  "ChunkedVideo \<Rightarrow> string \<Rightarrow> nat \<Rightarrow> byte list \<Rightarrow> nat \<Rightarrow> world \<Rightarrow> member \<times> world" where
  "enterLoop cv fname idx buf attempts w =
     (if attempts < MAX_RETRIES then (AwaitUpload cv fname (attempts + 1), w)
      else pushChunk cv idx [] buf attempts w)"

fun resume :: "string \<Rightarrow> nat \<Rightarrow> byte list \<Rightarrow> member \<Rightarrow> world \<Rightarrow> member \<times> world" where
  "resume vid idx buf AwaitFindOne w =
     (case findOne vid w of
        (Inl err, w1) \<Rightarrow> rejectChunk idx err w1
      | (Inr None, w1) \<Rightarrow> rejectChunk idx (Error ''Chunked video record not found'') w1
      | (Inr (Some cv), w1) \<Rightarrow>
          (case find (\<lambda>c. chunkIndex c = idx) (uploadedChunks cv) of
             Some existingChunk \<Rightarrow>
               (Settled (Inr (AlreadyUploaded idx (chunkPath existingChunk))), w1)
           | None \<Rightarrow>
               (let extension = extname (originalFilename cv);
                    timestamp = fst (dateNow w1);
                    fname = chunkFilename (folder cv) vid timestamp idx extension
                in enterLoop cv fname idx buf 0 (snd (dateNow w1)))))"
| "resume vid idx buf (AwaitUpload cv fname attempts) w =
     (case uploadAttempt (bucket cv) fname buf idx attempts w of
        (Inr p, w1) \<Rightarrow> pushChunk cv idx p buf attempts w1
      | (Inl uploadError, w1) \<Rightarrow>
          (let w2 = console_error (''AWS attempt '' @ toString attempts
                                    @ '' failed for chunk '' @ toString idx @ '':'')
                                  uploadError w1
           in if attempts < MAX_RETRIES then
                (AwaitTimer cv fname attempts (waitTime attempts (fst (mathRandom w2))),
                 snd (mathRandom w2))
              else
                rejectChunk idx
                  (RetriesExhausted idx attempts uploadError (length buf) (bucket cv)
                     (fst (dateNow w2)))
                  (snd (dateNow w2))))"
| "resume vid idx buf (AwaitTimer cv fname attempts ms) w =
     enterLoop cv fname idx buf attempts (sleep ms w)"
| "resume vid idx buf (AwaitSave cv' p attempts) w =
     (case save cv' w of
        (Inl err, w1) \<Rightarrow> rejectChunk idx err w1
      | (Inr _, w1) \<Rightarrow>
          (Settled (Inr (Uploaded idx p (uploadProgress cv') (isComplete cv') attempts)), w1))"
| "resume vid idx buf (Settled r) w = (Settled r, w)"

text \<open>
  A bound on the number of times a member can still be resumed, and \<open>uploadChunk\<close> run
  on its own: resumed until it has settled, with nothing else running in between.
\<close>

fun turnsLeft :: "member \<Rightarrow> nat" where
  "turnsLeft AwaitFindOne = 2 * MAX_RETRIES + 4"
| "turnsLeft (AwaitUpload cv fname attempts) = 2 * (MAX_RETRIES - attempts) + 3"
| "turnsLeft (AwaitTimer cv fname attempts ms) = 2 * (MAX_RETRIES - attempts) + 2"
| "turnsLeft (AwaitSave cv' p attempts) = 1"
| "turnsLeft (Settled r) = 0"

definition isSettled :: "member \<Rightarrow> bool" where
  "isSettled m = (case m of Settled r \<Rightarrow> True | _ \<Rightarrow> False)"

function settle ::
  "string \<Rightarrow> nat \<Rightarrow> byte list \<Rightarrow> member \<Rightarrow> world \<Rightarrow> (error + chunk_result) \<times> world" where
  "settle vid idx buf m w =
     (case m of
        Settled r \<Rightarrow> (r, w)
      | _ \<Rightarrow> settle vid idx buf (fst (resume vid idx buf m w)) (snd (resume vid idx buf m w)))"
  by pat_completeness auto
termination
proof -
  have less: "turnsLeft (fst (resume vid idx buf m w)) < turnsLeft m"
    if "\<not> isSettled m" for vid idx buf m w
    using that
    by (cases m)
       (auto simp: isSettled_def findOne_def save_def rejectChunk_def enterLoop_def
                   pushChunk_def Let_def split: option.splits prod.splits sum.splits)
  show ?thesis
    by (relation "measure (\<lambda>(vid, idx, buf, m, w). turnsLeft m)")
       (auto simp del: resume.simps turnsLeft.simps simp add: isSettled_def case_prod_beta
             intro!: less)
qed

declare settle.simps [simp del]

subsection \<open>cleanupChunks, one \<open>await\<close> at a time\<close>

text \<open>
  A started \<open>cleanupChunks\<close> waits for \<open>ChunkedVideo.findOne\<close>, for the race of the
  batched delete against its timeout, or for \<open>ChunkedVideo.deleteOne\<close>, or it has
  returned; it never throws.
\<close>

datatype cleaner =
    CleanFindOne
  | CleanRemove ChunkedVideo
  | CleanDeleteOne
  | CleanDone

definition afterRemove :: "bool \<Rightarrow> world \<Rightarrow> cleaner \<times> world" where
  "afterRemove force w = (if force then (CleanDeleteOne, w) else (CleanDone, w))"

fun resumeCleanup :: "string \<Rightarrow> bool \<Rightarrow> cleaner \<Rightarrow> world \<Rightarrow> cleaner \<times> world" where
  "resumeCleanup vid force CleanFindOne w =
     (case findOne vid w of
        (Inl err, w1) \<Rightarrow> (CleanDone, console_error ''AWS error during cleanup:'' err w1)
      | (Inr None, w1) \<Rightarrow> (CleanDone, w1)
      | (Inr (Some cv), w1) \<Rightarrow>
          if \<not> force \<and> isComplete cv then (CleanDone, w1)
          else
            (let chunkPaths = map chunkPath (uploadedChunks cv)
             in if length chunkPaths > 0 then (CleanRemove cv, w1) else afterRemove force w1))"
| "resumeCleanup vid force (CleanRemove cv) w =
     afterRemove force (removeChunkFiles (bucket cv) (map chunkPath (uploadedChunks cv)) w)"
| "resumeCleanup vid force CleanDeleteOne w =
     (case deleteOne vid w of
        (Inl err, w1) \<Rightarrow> (CleanDone, console_error ''AWS error during cleanup:'' err w1)
      | (Inr _, w1) \<Rightarrow> (CleanDone, w1))"
| "resumeCleanup vid force CleanDone w = (CleanDone, w)"

fun cleanupTurnsLeft :: "cleaner \<Rightarrow> nat" where
  "cleanupTurnsLeft CleanFindOne = 3"
| "cleanupTurnsLeft (CleanRemove cv) = 2"
| "cleanupTurnsLeft CleanDeleteOne = 1"
| "cleanupTurnsLeft CleanDone = 0"

subsection \<open>uploadVideoInChunks\<close>

text \<open>
  \<open>Buffer.slice(start, end)\<close>: an index below 0 counts from the end of the buffer, and
  both indices are brought into the buffer; the slice is empty when \<open>end\<close> is not
  beyond \<open>start\<close>.
\<close>

definition slice :: "'a list \<Rightarrow> int \<Rightarrow> int \<Rightarrow> 'a list" where
  "slice xs start stop =
     (let len = int (length xs);
          s = (if start < 0 then max (len + start) 0 else min start len);
          t = (if stop < 0 then max (len + stop) 0 else min stop len)
      in take (nat (t - s)) (drop (nat s) xs))"

definition chunkBuffer :: "settings \<Rightarrow> byte list \<Rightarrow> int \<Rightarrow> byte list" where
  "chunkBuffer e fileBuffer i =
     (let start = i * CHUNK_SIZE e;
          stop = min (start + CHUNK_SIZE e) (int (length fileBuffer))
      in slice fileBuffer start stop)"

text \<open>A number inside a template string.\<close>

definition numberToString :: "int \<Rightarrow> string" where
  "numberToString k = (if k < 0 then CHR ''-'' # toString (nat (- k)) else toString (nat k))"

text \<open>
  A member of a batch is the promise
  \<open>uploadChunk(videoId, i, chunkBuffer).then(...).catch(...)\<close>: its index, its slice
  and the state of its \<open>uploadChunk\<close>. The \<open>catch\<close> logs the rejection and throws it
  again; the \<open>then\<close> only writes to the log.
\<close>

type_synonym task = "nat \<times> byte list \<times> member"

definition resumeMember :: "string \<Rightarrow> int \<Rightarrow> task \<Rightarrow> world \<Rightarrow> task \<times> world" where
  "resumeMember vid tc t w =
     (case t of (i, cb, m) \<Rightarrow>
        (case resume vid i cb m w of
           (Settled (Inl err), w1) \<Rightarrow>
             ((i, cb, Settled (Inl err)),
              console_error (''AWS failed to upload chunk '' @ toString (i + 1) @ ''/''
                             @ numberToString tc @ '':'') err w1)
         | (m', w1) \<Rightarrow> ((i, cb, m'), w1)))"

text \<open>
  The members that have not settled, by position; which of them is resumed next is the
  environment's choice, read from \<open>sched\<close>.
\<close>

definition pending :: "task list \<Rightarrow> nat list" where
  "pending pool = filter (\<lambda>k. \<not> isSettled (snd (snd (pool ! k)))) [0..<length pool]"

definition nextTurn :: "world \<Rightarrow> nat \<times> world" where
  "nextTurn w = (sched w 0, w\<lparr>sched := shift (sched w)\<rparr>)"

definition resumeAt :: "string \<Rightarrow> int \<Rightarrow> nat \<Rightarrow> task list \<Rightarrow> world \<Rightarrow> task list \<times> world" where
  "resumeAt vid tc k pool w =
     (case resumeMember vid tc (pool ! k) w of (t, w1) \<Rightarrow> (pool[k := t], w1))"

definition rejections :: "task list \<Rightarrow> error list" where
  "rejections pool =
     concat (map (\<lambda>t. case snd (snd t) of Settled (Inl err) \<Rightarrow> [err] | _ \<Rightarrow> []) pool)"

definition fulfilled :: "task list \<Rightarrow> chunk_result list" where
  "fulfilled pool =
     concat (map (\<lambda>t. case snd (snd t) of Settled (Inr r) \<Rightarrow> [r] | _ \<Rightarrow> []) pool)"

definition poolTurnsLeft :: "task list \<Rightarrow> nat" where
  "poolTurnsLeft pool = sum_list (map (\<lambda>t. turnsLeft (snd (snd t))) pool)"

text \<open>
  \<open>await Promise.all(batchPromises)\<close>: every member has been started before; the
  promise rejects with the first rejection of a member and is fulfilled, with the results
  in the order of the members, once every member is. The members that have not settled
  when it rejects keep running: they are returned with the world.
\<close>

function runBatch ::
  "string \<Rightarrow> int \<Rightarrow> task list \<Rightarrow> world \<Rightarrow> (error + chunk_result list) \<times> task list \<times> world" where
  "runBatch vid tc pool w =
     (case rejections pool of
        err # others \<Rightarrow> (Inl err, pool, w)
      | [] \<Rightarrow>
          if pending pool = [] then (Inr (fulfilled pool), pool, w)
          else
            (let n = fst (nextTurn w) mod length (pending pool)
             in runBatch vid tc (fst (resumeAt vid tc (pending pool ! n) pool (snd (nextTurn w))))
                  (snd (resumeAt vid tc (pending pool ! n) pool (snd (nextTurn w))))))"
  by pat_completeness auto
termination
proof -
  have less: "turnsLeft (fst (resume vid i cb m w)) < turnsLeft m"
    if "\<not> isSettled m" for vid i cb m w
    using that
    by (cases m)
       (auto simp: isSettled_def findOne_def save_def rejectChunk_def enterLoop_def
                   pushChunk_def Let_def split: option.splits prod.splits sum.splits)
  have same: "turnsLeft (snd (snd (fst (resumeMember vid tc t w))))
                = turnsLeft (fst (resume vid (fst t) (fst (snd t)) (snd (snd t)) w))"
    for vid tc t w
    by (auto simp: resumeMember_def split: prod.splits member.splits sum.splits)
  have turn: "poolTurnsLeft (fst (resumeAt vid tc k pool w)) < poolTurnsLeft pool"
    if "k \<in> set (pending pool)" for vid tc k pool w
  proof -
    have k: "k < length pool" and waiting: "\<not> isSettled (snd (snd (pool ! k)))"
      using that by (auto simp: pending_def)
    define t where "t = fst (resumeMember vid tc (pool ! k) w)"
    have smaller: "turnsLeft (snd (snd t)) < turnsLeft (snd (snd (pool ! k)))"
      unfolding t_def same using less [OF waiting] by simp
    have "take k pool @ pool ! k # drop (Suc k) pool = pool"
      using k by (simp add: id_take_nth_drop [symmetric])
    then have "poolTurnsLeft pool = poolTurnsLeft (take k pool @ pool ! k # drop (Suc k) pool)"
      by simp
    also have "\<dots> = poolTurnsLeft (take k pool) + turnsLeft (snd (snd (pool ! k)))
                    + poolTurnsLeft (drop (Suc k) pool)"
      by (simp add: poolTurnsLeft_def)
    finally have whole: "poolTurnsLeft pool
            = poolTurnsLeft (take k pool) + turnsLeft (snd (snd (pool ! k)))
              + poolTurnsLeft (drop (Suc k) pool)" .
    have "pool[k := t] = take k pool @ t # drop (Suc k) pool"
      using k by (simp add: upd_conv_take_nth_drop)
    then have "poolTurnsLeft (pool[k := t])
            = poolTurnsLeft (take k pool) + turnsLeft (snd (snd t))
              + poolTurnsLeft (drop (Suc k) pool)"
      by (simp add: poolTurnsLeft_def)
    moreover have "fst (resumeAt vid tc k pool w) = pool[k := t]"
      by (simp add: resumeAt_def t_def split: prod.splits)
    ultimately show ?thesis
      using smaller whole by simp
  qed
  show ?thesis
    by (relation "measure (\<lambda>(vid, tc, pool, w). poolTurnsLeft pool)")
       (auto simp: case_prod_beta intro!: turn)
qed

declare runBatch.simps [simp del]

text \<open>
  The \<open>catch\<close> block of the batch runs \<open>await cleanupChunks(videoId, true)\<close> while the
  members that have not settled keep running: at each turn the environment resumes the
  cleanup (choice 0) or one of these members. The block goes on as soon as the cleanup
  has returned; what the members do after that is not part of the run.
\<close>

function cleanupAmong :: "string \<Rightarrow> int \<Rightarrow> cleaner \<Rightarrow> task list \<Rightarrow> world \<Rightarrow> world" where
  "cleanupAmong vid tc c pool w =
     (if c = CleanDone then w
      else
        (let n = fst (nextTurn w) mod (length (pending pool) + 1)
         in if n = 0 then
              cleanupAmong vid tc (fst (resumeCleanup vid True c (snd (nextTurn w)))) pool
                (snd (resumeCleanup vid True c (snd (nextTurn w))))
            else
              cleanupAmong vid tc c
                (fst (resumeAt vid tc (pending pool ! (n - 1)) pool (snd (nextTurn w))))
                (snd (resumeAt vid tc (pending pool ! (n - 1)) pool (snd (nextTurn w))))))"
  by pat_completeness auto
termination
proof -
  have less: "turnsLeft (fst (resume vid i cb m w)) < turnsLeft m"
    if "\<not> isSettled m" for vid i cb m w
    using that
    by (cases m)
       (auto simp: isSettled_def findOne_def save_def rejectChunk_def enterLoop_def
                   pushChunk_def Let_def split: option.splits prod.splits sum.splits)
  have same: "turnsLeft (snd (snd (fst (resumeMember vid tc t w))))
                = turnsLeft (fst (resume vid (fst t) (fst (snd t)) (snd (snd t)) w))"
    for vid tc t w
    by (auto simp: resumeMember_def split: prod.splits member.splits sum.splits)
  have turn: "poolTurnsLeft (fst (resumeAt vid tc k pool w)) < poolTurnsLeft pool"
    if "k \<in> set (pending pool)" for vid tc k pool w
  proof -
    have k: "k < length pool" and waiting: "\<not> isSettled (snd (snd (pool ! k)))"
      using that by (auto simp: pending_def)
    define t where "t = fst (resumeMember vid tc (pool ! k) w)"
    have smaller: "turnsLeft (snd (snd t)) < turnsLeft (snd (snd (pool ! k)))"
      unfolding t_def same using less [OF waiting] by simp
    have "take k pool @ pool ! k # drop (Suc k) pool = pool"
      using k by (simp add: id_take_nth_drop [symmetric])
    then have "poolTurnsLeft pool = poolTurnsLeft (take k pool @ pool ! k # drop (Suc k) pool)"
      by simp
    also have "\<dots> = poolTurnsLeft (take k pool) + turnsLeft (snd (snd (pool ! k)))
                    + poolTurnsLeft (drop (Suc k) pool)"
      by (simp add: poolTurnsLeft_def)
    finally have whole: "poolTurnsLeft pool
            = poolTurnsLeft (take k pool) + turnsLeft (snd (snd (pool ! k)))
              + poolTurnsLeft (drop (Suc k) pool)" .
    have "pool[k := t] = take k pool @ t # drop (Suc k) pool"
      using k by (simp add: upd_conv_take_nth_drop)
    then have "poolTurnsLeft (pool[k := t])
            = poolTurnsLeft (take k pool) + turnsLeft (snd (snd t))
              + poolTurnsLeft (drop (Suc k) pool)"
      by (simp add: poolTurnsLeft_def)
    moreover have "fst (resumeAt vid tc k pool w) = pool[k := t]"
      by (simp add: resumeAt_def t_def split: prod.splits)
    ultimately show ?thesis
      using smaller whole by simp
  qed
  have clean: "cleanupTurnsLeft (fst (resumeCleanup vid True c w)) < cleanupTurnsLeft c"
    if "c \<noteq> CleanDone" for vid c w
    using that
    by (cases c)
       (auto simp: findOne_def deleteOne_def afterRemove_def Let_def split: option.splits)
  have chosen: "pending pool ! (n mod Suc (length (pending pool)) - Suc 0) \<in> set (pending pool)"
    if "0 < n mod Suc (length (pending pool))" for pool and n :: nat
  proof -
    have "n mod Suc (length (pending pool)) < Suc (length (pending pool))"
      by simp
    then have "n mod Suc (length (pending pool)) - Suc 0 < length (pending pool)"
      using that by linarith
    then show ?thesis
      by simp
  qed
  show ?thesis
    by (relation "measure (\<lambda>(vid, tc, c, pool, w). cleanupTurnsLeft c + poolTurnsLeft pool)")
       (auto simp del: resumeCleanup.simps cleanupTurnsLeft.simps simp add: case_prod_beta
             intro!: turn clean chosen)
qed

declare cleanupAmong.simps [simp del]

text \<open>
  The loop
  \<open>for (batchStart = 0; batchStart < totalChunks; batchStart += maxConcurrentChunks)\<close>,
  entered with the given \<open>batchStart\<close> and \<open>chunkResults\<close>. The value is \<open>None\<close>
  when the loop never ends. The index \<open>i\<close> of a member runs from \<open>batchStart\<close>, which
  is never negative in a batch that has members, so that it is handed to
  \<open>uploadChunk\<close> as a natural number. \<open>cleanupChunks\<close> never throws: the
  \<open>catch\<close> around its call has nothing to catch.
\<close>

partial_function (option) uploadBatches ::
  "settings \<Rightarrow> string \<Rightarrow> byte list \<Rightarrow> int \<Rightarrow> int \<Rightarrow> int \<Rightarrow> chunk_result list \<Rightarrow> world
     \<Rightarrow> ((error + chunk_result list) \<times> world) option" where
  "uploadBatches e vid fileBuffer tc mc batchStart chunkResults w =
     (if batchStart < tc then
        (let batchEnd = min (batchStart + mc) tc;
             batchPromises = map (\<lambda>i. (nat i, chunkBuffer e fileBuffer i, AwaitFindOne))
                               [batchStart..batchEnd - 1]
         in case runBatch vid tc batchPromises w of
              (Inr batchResults, pool, w1) \<Rightarrow>
                uploadBatches e vid fileBuffer tc mc (batchStart + mc) (chunkResults @ batchResults)
                  (if batchEnd < tc then sleep 1000 w1 else w1)
            | (Inl batchError, pool, w1) \<Rightarrow>
                (let w2 = console_error (''AWS batch '' @ numberToString (batchStart div mc + 1)
                                          @ '' failed:'') batchError w1;
                     w3 = cleanupAmong vid tc CleanFindOne pool w2
                 in Some (Inl (BatchFailed (batchStart + 1) batchError), w3)))
      else Some (Inr chunkResults, w))"

declare uploadBatches.simps [code]

text \<open>What follows the batch loop: verification, duration, completion.\<close>

definition verifyAndComplete ::
  "settings \<Rightarrow> string \<Rightarrow> int \<Rightarrow> world \<Rightarrow> (error + complete_result) \<times> world" where
  "verifyAndComplete e vid tc w =
     (case findOne vid w of
        (Inl err, w1) \<Rightarrow> (Inl err, w1)
      | (Inr None, w1) \<Rightarrow> (Inl (Error ''AWS chunked video record not found after upload''), w1)
      | (Inr (Some cv), w1) \<Rightarrow>
          if int (length (uploadedChunks cv)) \<noteq> tc then
            (Inl (UploadIncomplete (length (uploadedChunks cv)) tc), w1)
          else
            (let cv' = checkCompletion (calculateProgress cv)
             in case save cv' w1 of
                  (Inl err, w2) \<Rightarrow> (Inl err, w2)
                | (Inr _, w2) \<Rightarrow>
                    if \<not> isComplete cv' then
                      (Inl (Error ''AWS upload verification failed: not all chunks are marked as uploaded''), w2)
                    else
                      (let w3 = (case extractVideoMetadata w2 of
                                   (Inl m, w') \<Rightarrow>
                                     console_error ''AWS failed to extract video duration:''
                                       (Error m) w'
                                 | (Inr d, w') \<Rightarrow> w');
                           videoDuration = (case fst (extractVideoMetadata w2) of
                                              Inl m \<Rightarrow> 0 | Inr d \<Rightarrow> d)
                       in case completeChunkedUpload e vid w3 of
                            (Inl err, w4) \<Rightarrow> (Inl err, w4)
                          | (Inr (Completed r), w4) \<Rightarrow>
                              (Inr (Completed (r\<lparr>duration := Some videoDuration\<rparr>)), w4)
                          | (Inr (AlreadyCompleted v u cs), w4) \<Rightarrow>
                              (Inl (Error ''TypeError: uploadStats is undefined''), w4))))"

definition uploadVideoInChunks_try ::
  "settings \<Rightarrow> upload_file \<Rightarrow> string \<Rightarrow> world
     \<Rightarrow> ((error + complete_result) \<times> world) option" where
  "uploadVideoInChunks_try e f fld w =
     (case initializeChunkedUpload e f fld w of
        (Inl err, w1) \<Rightarrow> Some (Inl err, w1)
      | (Inr initResult, w1) \<Rightarrow>
          (case buffer f of
             None \<Rightarrow> Some (Inl (Error ''TypeError: fileBuffer is undefined''), w1)
           | Some fileBuffer \<Rightarrow>
               (case uploadBatches e (ir_videoId initResult) fileBuffer
                       (ir_totalChunks initResult) (ir_maxConcurrentChunks initResult) 0 [] w1 of
                  None \<Rightarrow> None
                | Some (Inl err, w2) \<Rightarrow> Some (Inl err, w2)
                | Some (Inr chunkResults, w2) \<Rightarrow>
                    Some (verifyAndComplete e (ir_videoId initResult)
                            (ir_totalChunks initResult) w2))))"

definition uploadVideoInChunks ::
  "settings \<Rightarrow> upload_file \<Rightarrow> string \<Rightarrow> world
     \<Rightarrow> ((error + complete_result) \<times> world) option" where
  "uploadVideoInChunks e f fld w =
     (case uploadVideoInChunks_try e f fld w of
        None \<Rightarrow> None
      | Some (Inl err, w1) \<Rightarrow>
          Some (Inl (ChunkedVideoUploadFailed err),
                console_error ''AWS error in chunked video upload:'' err w1)
      | Some (Inr r, w1) \<Rightarrow> Some (Inr r, w1))"

subsection \<open>Fixtures\<close>

text \<open>
  A world in which every call succeeds, a 25-byte file whose content type is the generic
  one and whose name has a video extension in upper case, a text file, and settings with
  10-byte chunks.
\<close>

definition quiet_world :: world where
  "quiet_world =
     \<lparr>db = Map.empty, objects = Map.empty, calls = [], console = [],
      upload_fate = (\<lambda>n. Stored), remove_fate = (\<lambda>n. Removed), db_fate = (\<lambda>n. None),
      clock = (\<lambda>n. 1700000000000 + n), random = (\<lambda>n. 1 / 2), ids = (\<lambda>n. ''a1b2''),
      metadata = (\<lambda>n. Inr 12), sched = (\<lambda>n. n),
      publicUrl = (\<lambda>b p. ''https://storage.test/'' @ b @ ''/'' @ p)\<rparr>"

definition clip :: upload_file where
  "clip = \<lparr>buffer = Some (replicate 25 0), file_mimetype = ''application/octet-stream'',
           originalname = ''Lecture.MKV'', file_size = 25\<rparr>"

definition memo :: upload_file where
  "memo = \<lparr>buffer = Some (replicate 4 0), file_mimetype = ''text/plain'',
            originalname = ''memo.txt'', file_size = 4\<rparr>"

definition small_chunks :: settings where
  "small_chunks =
     \<lparr>env_CHUNK_SIZE = Some 10, env_MAX_CONCURRENT_CHUNKS = None, env_CHUNK_TIMEOUT = None\<rparr>"

text \<open>
  Sessions of the 25-byte file: one with the first chunk uploaded, one with all three
  chunks uploaded (recorded out of order) and not yet completed, one completed. The world
  \<open>holding cv\<close> is the quiet world with the session \<open>cv\<close> and the objects of its
  chunk records.
\<close>

definition chunk_record :: "nat \<Rightarrow> nat \<Rightarrow> chunk" where
  "chunk_record i n =
     \<lparr>chunkIndex = i,
      chunkPath = chunkFilename ''videos'' ''a1b2'' (1700000000000 + i) i ''.MKV'',
      chunk_size = n, uploadedAt = 1700000000100 + i, uploadAttempts = 1\<rparr>"

definition partial_session :: ChunkedVideo where
  "partial_session =
     \<lparr>videoId = ''a1b2'', originalFilename = ''Lecture.MKV'', totalSize = 25, totalChunks = 3,
      chunkSize = 10, mimetype = ''application/octet-stream'', bucket = ''videos'',
      folder = ''videos'', uploadedChunks = [chunk_record 0 10], uploadProgress = 100 / 3,
      isComplete = False, finalVideoUrl = None, completedAt = None, maxConcurrentChunks = 2,
      chunkTimeout = 300000\<rparr>"

definition complete_session :: ChunkedVideo where
  "complete_session =
     partial_session\<lparr>uploadedChunks := [chunk_record 1 10, chunk_record 0 10, chunk_record 2 5],
                     uploadProgress := 100, isComplete := True\<rparr>"

definition finished_session :: ChunkedVideo where
  "finished_session =
     complete_session\<lparr>uploadedChunks := [chunk_record 0 10, chunk_record 1 10, chunk_record 2 5],
       finalVideoUrl := Some ''https://storage.test/videos/videos/manifests/aws_a1b2_manifest.json'',
       completedAt := Some 1700000000200\<rparr>"

definition holding :: "ChunkedVideo \<Rightarrow> world" where
  "holding cv =
     quiet_world\<lparr>db := [videoId cv \<mapsto> cv],
                 objects := map_of (map (\<lambda>c. ((bucket cv, chunkPath c),
                                               Bytes (replicate (chunk_size c) 0)))
                                        (uploadedChunks cv))\<rparr>"

text \<open>
  \<open>flaky_world k\<close> holds the session with one chunk; its storage lets the first
  \<open>k\<close> uploads time out and stores every later one.
\<close>

definition flaky_world :: "nat \<Rightarrow> world" where
  "flaky_world k =
     (holding partial_session)\<lparr>upload_fate := (\<lambda>n. if n < k then TimedOut else Stored)\<rparr>"

text \<open>
  \<open>stalled_after k\<close> is the quiet world, except that its storage stores the first
  \<open>k\<close> uploads and lets every later one time out.
\<close>

definition stalled_after :: "nat \<Rightarrow> world" where
  "stalled_after k = quiet_world\<lparr>upload_fate := (\<lambda>n. if n < k then Stored else TimedOut)\<rparr>"

section \<open>Properties\<close>

subsection \<open>Media classification\<close>

lemma hasVideoExtension_nonempty: "hasVideoExtension name \<Longrightarrow> name \<noteq> []"
  by (auto simp: hasVideoExtension_def hasExtension_def endsWith_def list_ex_iff)

lemma mkv_is_video_extension: "hasExtension name ''mkv'' \<Longrightarrow> hasVideoExtension name"
  by (simp add: hasVideoExtension_def VIDEO_EXTENSIONS_def)

lemma isVideo_iff:
  "isVideo f \<longleftrightarrow> startsWith (file_mimetype f) ''video/'' \<or> hasVideoExtension (originalname f)"
  using hasVideoExtension_nonempty mkv_is_video_extension
  by (auto simp: isVideo_def Let_def)

lemma initialize_rejects:
  assumes "buffer f = None \<or> \<not> isVideo f"
  shows "initializeChunkedUpload e f fld w
           = (Inl (InitializeFailed (Error (if buffer f = None then ''Invalid file buffer''
                                            else ''File must be a video''))),
              console_error ''Error initializing AWS-optimized chunked upload:''
                (Error (if buffer f = None then ''Invalid file buffer''
                        else ''File must be a video'')) w)"
  using assms
  by (auto simp: initializeChunkedUpload_def initializeChunkedUpload_try_def split: option.splits)

lemma octet_stream_bucket:
  "getBucketForFileType ''application/octet-stream'' fld [] = BUCKET_VIDEOS"
  by (simp add: getBucketForFileType_def ALLOWED_VIDEOS_def Let_def)

lemma initialize_session:
  assumes "buffer f \<noteq> None" "isVideo f" "db_fate w 0 = None"
  shows "\<exists>r cv. fst (initializeChunkedUpload e f fld w) = Inr r
           \<and> db (snd (initializeChunkedUpload e f fld w)) (ir_videoId r) = Some cv
           \<and> bucket cv = getBucketForFileType (file_mimetype f) fld []"
  using assms
  by (auto simp add: initializeChunkedUpload_def initializeChunkedUpload_try_def Let_def save_def
         generateVideoId_def)

lemma clip_extension: "hasVideoExtension (originalname clip)"
  by (simp add: clip_def hasVideoExtension_def hasExtension_def endsWith_def toLowerAscii_def
        VIDEO_EXTENSIONS_def)

lemma memo_not_video: "\<not> isVideo memo"
  by (simp add: isVideo_def memo_def hasVideoExtension_def hasExtension_def endsWith_def
        toLowerAscii_def VIDEO_EXTENSIONS_def startsWith_def)

text \<open>
  C8. A file is classified as a video exactly when its content type starts with
  \<open>video/\<close>, or else its name has one of the recognised extensions, or else its content
  type is the generic \<open>application/octet-stream\<close> and its name has a recognised
  extension. \<open>initializeChunkedUpload\<close> fails with a validation error, creating no
  session and calling no storage, when the buffer is absent or no rule matches. A file
  with the generic content type and a recognised extension is classified as a video and
  its session is given the video bucket, which is not the default (images) bucket;
  \<open>getBucketForFileType\<close> itself gives the video bucket for the generic content type,
  and for any content type when it is handed a name with a recognised extension.
\<close>

theorem media_classification:
  "(isVideo f \<longleftrightarrow>
      startsWith (file_mimetype f) ''video/''
      \<or> hasVideoExtension (originalname f)
      \<or> (file_mimetype f = ''application/octet-stream'' \<and> hasVideoExtension (originalname f)))
   \<and> (buffer f = None \<or> \<not> isVideo f \<longrightarrow>
        (\<exists>m. fst (initializeChunkedUpload e f fld w) = Inl (InitializeFailed (Error m)))
        \<and> db (snd (initializeChunkedUpload e f fld w)) = db w
        \<and> calls (snd (initializeChunkedUpload e f fld w)) = calls w)
   \<and> (buffer f \<noteq> None \<and> file_mimetype f = ''application/octet-stream''
        \<and> hasVideoExtension (originalname f) \<and> db_fate w 0 = None \<longrightarrow>
        isVideo f
        \<and> (\<exists>r cv. fst (initializeChunkedUpload e f fld w) = Inr r
              \<and> db (snd (initializeChunkedUpload e f fld w)) (ir_videoId r) = Some cv
              \<and> bucket cv = BUCKET_VIDEOS \<and> bucket cv \<noteq> BUCKET_IMAGES))
   \<and> getBucketForFileType ''application/octet-stream'' fld name = BUCKET_VIDEOS
   \<and> (hasVideoExtension name \<longrightarrow> getBucketForFileType mt fld name = BUCKET_VIDEOS)"
proof (intro conjI impI)
  show "getBucketForFileType ''application/octet-stream'' fld name = BUCKET_VIDEOS"
    by (simp add: getBucketForFileType_def ALLOWED_VIDEOS_def Let_def)
  show "getBucketForFileType mt fld name = BUCKET_VIDEOS" if "hasVideoExtension name"
    using that hasVideoExtension_nonempty [of name]
    by (simp add: getBucketForFileType_def Let_def)
next
  show "isVideo f \<longleftrightarrow>
      startsWith (file_mimetype f) ''video/''
      \<or> hasVideoExtension (originalname f)
      \<or> (file_mimetype f = ''application/octet-stream'' \<and> hasVideoExtension (originalname f))"
    using isVideo_iff by blast
next
  assume bad: "buffer f = None \<or> \<not> isVideo f"
  show "\<exists>m. fst (initializeChunkedUpload e f fld w) = Inl (InitializeFailed (Error m))"
    by (simp add: initialize_rejects [OF bad])
  show "db (snd (initializeChunkedUpload e f fld w)) = db w"
    by (simp add: initialize_rejects [OF bad] console_error_def)
  show "calls (snd (initializeChunkedUpload e f fld w)) = calls w"
    by (simp add: initialize_rejects [OF bad] console_error_def)
next
  assume ok: "buffer f \<noteq> None \<and> file_mimetype f = ''application/octet-stream''
        \<and> hasVideoExtension (originalname f) \<and> db_fate w 0 = None"
  then show video: "isVideo f" by (simp add: isVideo_iff)
  from initialize_session [of f w e fld] ok video octet_stream_bucket [of fld]
  show "\<exists>r cv. fst (initializeChunkedUpload e f fld w) = Inr r
              \<and> db (snd (initializeChunkedUpload e f fld w)) (ir_videoId r) = Some cv
              \<and> bucket cv = BUCKET_VIDEOS \<and> bucket cv \<noteq> BUCKET_IMAGES"
    by (auto simp: BUCKET_VIDEOS_def BUCKET_IMAGES_def)
qed

theorem media_classification_witness:
  "(buffer memo = None \<or> \<not> isVideo memo)
   \<and> (\<exists>m. fst (initializeChunkedUpload small_chunks memo ''videos'' quiet_world)
             = Inl (InitializeFailed (Error m)))
   \<and> buffer clip \<noteq> None \<and> file_mimetype clip = ''application/octet-stream''
   \<and> hasVideoExtension (originalname clip) \<and> db_fate quiet_world 0 = None
   \<and> isVideo clip
   \<and> (\<exists>r cv. fst (initializeChunkedUpload small_chunks clip ''videos'' quiet_world) = Inr r
         \<and> db (snd (initializeChunkedUpload small_chunks clip ''videos'' quiet_world)) (ir_videoId r)
             = Some cv
         \<and> bucket cv = ''videos'')"
proof -
  have bad: "buffer memo = None \<or> \<not> isVideo memo" using memo_not_video by simp
  have ok: "buffer clip \<noteq> None \<and> file_mimetype clip = ''application/octet-stream''
        \<and> hasVideoExtension (originalname clip) \<and> db_fate quiet_world 0 = None"
    using clip_extension by (simp add: clip_def quiet_world_def)
  from media_classification [where f = memo and e = small_chunks and fld = "''videos''"
                               and w = quiet_world] bad
  have rejected: "\<exists>m. fst (initializeChunkedUpload small_chunks memo ''videos'' quiet_world)
       = Inl (InitializeFailed (Error m))" by blast
  from media_classification [where f = clip and e = small_chunks and fld = "''videos''"
                               and w = quiet_world] ok
  have "isVideo clip \<and> (\<exists>r cv. fst (initializeChunkedUpload small_chunks clip ''videos'' quiet_world) = Inr r
         \<and> db (snd (initializeChunkedUpload small_chunks clip ''videos'' quiet_world)) (ir_videoId r)
             = Some cv
         \<and> bucket cv = ''videos'')"
    unfolding BUCKET_VIDEOS_def by blast
  with rejected show ?thesis using bad ok by blast
qed

subsection \<open>Cleanup\<close>

lemmas cleanup_defs = cleanupChunks_def cleanupChunks_try_def findOne_def removeChunkFiles_def
  storage_remove_def deleteOne_def console_error_def Let_def

lemma cleanup_returns: "fst (cleanupChunks vid force w) = Inr ()"
  by (simp add: cleanupChunks_def split: prod.splits sum.splits)

lemma cleanup_missing:
  assumes "db w vid = None"
  shows "db (snd (cleanupChunks vid force w)) = db w
    \<and> objects (snd (cleanupChunks vid force w)) = objects w
    \<and> calls (snd (cleanupChunks vid force w)) = calls w"
  using assms by (simp_all add: cleanup_defs split: option.splits)

lemma cleanup_complete_unforced:
  assumes "db w vid = Some cv" "isComplete cv" "\<not> force"
  shows "db (snd (cleanupChunks vid force w)) = db w
    \<and> objects (snd (cleanupChunks vid force w)) = objects w
    \<and> calls (snd (cleanupChunks vid force w)) = calls w"
  using assms by (simp_all add: cleanup_defs split: option.splits)

lemma cleanup_unforced_keeps_record:
  "db (snd (cleanupChunks vid False w)) = db w"
  by (simp add: cleanup_defs split: option.splits remove_outcome.splits)

lemma cleanup_forced:
  assumes "db_fate w 0 = None" "db w vid = Some cv" "db_fate w 1 = None"
  shows "db (snd (cleanupChunks vid True w)) = (db w)(vid := None)
    \<and> calls (snd (cleanupChunks vid True w))
           = calls w @ (if uploadedChunks cv = [] then []
                        else [Remove (bucket cv) (map chunkPath (uploadedChunks cv))])"
  using assms by (simp_all add: cleanup_defs shift_def split: option.splits remove_outcome.splits)

lemma cleanup_removes_objects:
  assumes "db_fate w 0 = None" "db w vid = Some cv" "force \<or> \<not> isComplete cv"
    "remove_fate w 0 = Removed" "c \<in> set (uploadedChunks cv)"
  shows "objects (snd (cleanupChunks vid force w)) (bucket cv, chunkPath c) = None"
  using assms by (auto simp add: cleanup_defs shift_def split: option.splits remove_outcome.splits)

text \<open>
  C7. \<open>cleanupChunks\<close> leaves the session collection, the stored objects and the list
  of storage calls as they were when the session does not exist, and also when the
  session is complete and \<open>force\<close> is false. Without \<open>force\<close> the session record is
  never deleted. With \<open>force\<close>, for an existing session and a persistence layer that
  answers, the record is deleted, after the one batched delete of the recorded chunk
  paths (issued when there is at least one).
\<close>

theorem cleanup_frame:
  "(db w vid = None \<longrightarrow>
      db (snd (cleanupChunks vid force w)) = db w
      \<and> objects (snd (cleanupChunks vid force w)) = objects w
      \<and> calls (snd (cleanupChunks vid force w)) = calls w)
   \<and> (db w vid = Some cv \<and> isComplete cv \<and> \<not> force \<longrightarrow>
      db (snd (cleanupChunks vid force w)) = db w
      \<and> objects (snd (cleanupChunks vid force w)) = objects w
      \<and> calls (snd (cleanupChunks vid force w)) = calls w)
   \<and> (\<not> force \<longrightarrow> db (snd (cleanupChunks vid force w)) = db w)
   \<and> (force \<and> db_fate w 0 = None \<and> db w vid = Some cv \<and> db_fate w 1 = None \<longrightarrow>
      db (snd (cleanupChunks vid force w)) = (db w)(vid := None)
      \<and> calls (snd (cleanupChunks vid force w))
           = calls w @ (if uploadedChunks cv = [] then []
                        else [Remove (bucket cv) (map chunkPath (uploadedChunks cv))]))"
  using cleanup_missing [of w vid force] cleanup_complete_unforced [of w vid cv force]
    cleanup_unforced_keeps_record [of vid w] cleanup_forced [of w vid cv]
  by auto

text \<open>
  C10. \<open>cleanupChunks\<close> returns normally for every session id, flag and world,
  whatever the persistence layer and the storage answer. A failing lookup is logged and
  nothing else happens; a missing record logs no error; a refused, rejected or timed-out
  batched delete is logged and the run goes on; a failing record deletion is logged by
  the outer handler.
\<close>

theorem cleanup_never_raises:
  "fst (cleanupChunks vid force w) = Inr ()
   \<and> (\<forall>m. db_fate w 0 = Some m \<longrightarrow>
        console (snd (cleanupChunks vid force w))
          = console w @ [(''AWS error during cleanup:'', Error m)]
        \<and> db (snd (cleanupChunks vid force w)) = db w)
   \<and> (db_fate w 0 = None \<and> db w vid = None \<longrightarrow>
        console (snd (cleanupChunks vid force w)) = console w)
   \<and> (db_fate w 0 = None \<and> db w vid = Some cv \<and> (force \<or> \<not> isComplete cv) \<longrightarrow>
        console (snd (cleanupChunks vid force w))
          = console w
            @ (if uploadedChunks cv = [] then []
               else (case remove_fate w 0 of
                       Removed \<Rightarrow> []
                     | RemoveRefused m \<Rightarrow> [(''AWS error deleting chunks:'', Error m)]
                     | RemoveRejected m \<Rightarrow> [(''AWS chunk deletion failed:'', Error m)]
                     | RemoveTimedOut \<Rightarrow>
                         [(''AWS chunk deletion failed:'', Error ''AWS cleanup timeout'')]))
            @ (if force then (case db_fate w 1 of
                                None \<Rightarrow> []
                              | Some m \<Rightarrow> [(''AWS error during cleanup:'', Error m)])
               else []))"
  by (auto simp add: cleanup_defs shift_def split: option.splits remove_outcome.splits)


lemmas session_defs = holding_def finished_session_def complete_session_def partial_session_def
  quiet_world_def

theorem cleanup_frame_witness:
  "db quiet_world ''none'' = None
   \<and> db (snd (cleanupChunks ''none'' True quiet_world)) = db quiet_world
   \<and> calls (snd (cleanupChunks ''none'' True quiet_world)) = []
   \<and> db (holding finished_session) ''a1b2'' = Some finished_session
   \<and> isComplete finished_session
   \<and> db (snd (cleanupChunks ''a1b2'' False (holding finished_session))) ''a1b2''
       = Some finished_session
   \<and> objects (snd (cleanupChunks ''a1b2'' False (holding finished_session)))
       = objects (holding finished_session)
   \<and> calls (snd (cleanupChunks ''a1b2'' False (holding finished_session))) = []
   \<and> db_fate (holding partial_session) 0 = None
   \<and> db (holding partial_session) ''a1b2'' = Some partial_session
   \<and> db_fate (holding partial_session) 1 = None
   \<and> db (snd (cleanupChunks ''a1b2'' True (holding partial_session))) ''a1b2'' = None
   \<and> calls (snd (cleanupChunks ''a1b2'' True (holding partial_session)))
       = [Remove ''videos'' [chunkPath (chunk_record 0 10)]]"
proof -
  have h1: "db quiet_world ''none'' = None" by (simp add: quiet_world_def)
  have h2: "db (holding finished_session) ''a1b2'' = Some finished_session
            \<and> isComplete finished_session \<and> \<not> False"
    by (simp add: session_defs)
  have h3: "True \<and> db_fate (holding partial_session) 0 = None
            \<and> db (holding partial_session) ''a1b2'' = Some partial_session
            \<and> db_fate (holding partial_session) 1 = None"
    by (simp add: session_defs)
  from cleanup_frame [where w = quiet_world and vid = "''none''" and force = True] h1
  have c1: "db (snd (cleanupChunks ''none'' True quiet_world)) = db quiet_world
            \<and> calls (snd (cleanupChunks ''none'' True quiet_world)) = []"
    by (simp add: quiet_world_def)
  from cleanup_frame [where w = "holding finished_session" and vid = "''a1b2''"
                        and cv = finished_session and force = False] h2
  have c2: "db (snd (cleanupChunks ''a1b2'' False (holding finished_session))) ''a1b2''
              = Some finished_session
            \<and> objects (snd (cleanupChunks ''a1b2'' False (holding finished_session)))
              = objects (holding finished_session)
            \<and> calls (snd (cleanupChunks ''a1b2'' False (holding finished_session))) = []"
    by (simp add: holding_def quiet_world_def)
  from cleanup_frame [where w = "holding partial_session" and vid = "''a1b2''"
                        and cv = partial_session and force = True] h3
  have c3: "db (snd (cleanupChunks ''a1b2'' True (holding partial_session))) ''a1b2'' = None
            \<and> calls (snd (cleanupChunks ''a1b2'' True (holding partial_session)))
                = [Remove ''videos'' [chunkPath (chunk_record 0 10)]]"
    by (simp add: holding_def quiet_world_def partial_session_def)
  from h1 h2 h3 c1 c2 c3 show ?thesis by blast
qed

theorem cleanup_never_raises_witness:
  "db_fate (quiet_world\<lparr>db_fate := (\<lambda>n. Some ''connection lost'')\<rparr>) 0 = Some ''connection lost''
   \<and> cleanupChunks ''a1b2'' True (quiet_world\<lparr>db_fate := (\<lambda>n. Some ''connection lost'')\<rparr>)
       = (Inr (), quiet_world\<lparr>db_fate := (\<lambda>n. Some ''connection lost''),
                   console := [(''AWS error during cleanup:'', Error ''connection lost'')]\<rparr>)
   \<and> db_fate quiet_world 0 = None \<and> db quiet_world ''a1b2'' = None
   \<and> fst (cleanupChunks ''a1b2'' True quiet_world) = Inr ()
   \<and> console (snd (cleanupChunks ''a1b2'' True quiet_world)) = []
   \<and> db_fate ((holding partial_session)\<lparr>remove_fate := (\<lambda>n. RemoveTimedOut),
                 db_fate := (\<lambda>n. if n = 1 then Some ''connection lost'' else None)\<rparr>) 0 = None
   \<and> fst (cleanupChunks ''a1b2'' True
            ((holding partial_session)\<lparr>remove_fate := (\<lambda>n. RemoveTimedOut),
               db_fate := (\<lambda>n. if n = 1 then Some ''connection lost'' else None)\<rparr>)) = Inr ()
   \<and> console (snd (cleanupChunks ''a1b2'' True
            ((holding partial_session)\<lparr>remove_fate := (\<lambda>n. RemoveTimedOut),
               db_fate := (\<lambda>n. if n = 1 then Some ''connection lost'' else None)\<rparr>)))
       = [(''AWS chunk deletion failed:'', Error ''AWS cleanup timeout''),
          (''AWS error during cleanup:'', Error ''connection lost'')]"
proof -
  let ?down = "quiet_world\<lparr>db_fate := (\<lambda>n. Some ''connection lost'')\<rparr>"
  let ?flaky = "(holding partial_session)\<lparr>remove_fate := (\<lambda>n. RemoveTimedOut),
                 db_fate := (\<lambda>n. if n = 1 then Some ''connection lost'' else None)\<rparr>"
  have h1: "db_fate ?down 0 = Some ''connection lost''" by simp
  have h2: "db_fate quiet_world 0 = None \<and> db quiet_world ''a1b2'' = None"
    by (simp add: quiet_world_def)
  have h3: "db_fate ?flaky 0 = None \<and> db ?flaky ''a1b2'' = Some partial_session
            \<and> (True \<or> \<not> isComplete partial_session)"
    by (simp add: session_defs)
  from cleanup_never_raises [where w = ?down and vid = "''a1b2''" and force = True] h1
  have "fst (cleanupChunks ''a1b2'' True ?down) = Inr ()
        \<and> console (snd (cleanupChunks ''a1b2'' True ?down))
            = [(''AWS error during cleanup:'', Error ''connection lost'')]"
    by (simp add: quiet_world_def)
  then have c1: "cleanupChunks ''a1b2'' True ?down
       = (Inr (), quiet_world\<lparr>db_fate := (\<lambda>n. Some ''connection lost''),
                   console := [(''AWS error during cleanup:'', Error ''connection lost'')]\<rparr>)"
    by (simp add: cleanup_defs shift_def quiet_world_def)
  from cleanup_never_raises [where w = quiet_world and vid = "''a1b2''" and force = True] h2
  have c2: "fst (cleanupChunks ''a1b2'' True quiet_world) = Inr ()
            \<and> console (snd (cleanupChunks ''a1b2'' True quiet_world)) = []"
    by (simp add: quiet_world_def)
  from cleanup_never_raises [where w = ?flaky and vid = "''a1b2''" and force = True
                               and cv = partial_session] h3
  have c3: "fst (cleanupChunks ''a1b2'' True ?flaky) = Inr ()
            \<and> console (snd (cleanupChunks ''a1b2'' True ?flaky))
                = [(''AWS chunk deletion failed:'', Error ''AWS cleanup timeout''),
                   (''AWS error during cleanup:'', Error ''connection lost'')]"
    by (simp add: session_defs)
  from h1 h2 h3 c1 c2 c3 show ?thesis by blast
qed

subsection \<open>Uploading one chunk\<close>

lemma find_present:
  "x \<in> f ` set xs \<Longrightarrow> \<exists>c \<in> set xs. f c = x \<and> find (\<lambda>c. f c = x) xs = Some c"
  by (induction xs) auto

lemma find_snoc:
  "find P xs = None \<Longrightarrow> find P (xs @ [y]) = (if P y then Some y else None)"
  by (induction xs) (auto split: if_splits)

lemma uploadChunk_present:
  assumes "db_fate w 0 = None" "db w vid = Some cv"
    "find (\<lambda>c. chunkIndex c = idx) (uploadedChunks cv) = Some c"
  shows "uploadChunk vid idx buf w
           = (Inr (AlreadyUploaded idx (chunkPath c)), w\<lparr>db_fate := shift (db_fate w)\<rparr>)"
  using assms by (simp add: uploadChunk_def uploadChunk_try_def findOne_def)

lemma uploadChunk_uploaded:
  assumes "fst (uploadChunk vid idx buf w) = Inr (Uploaded i p pr ic n)"
    and "\<forall>cv. db w vid = Some cv \<longrightarrow> videoId cv = vid"
  shows "\<exists>cv cv' t. db w vid = Some cv
           \<and> find (\<lambda>c. chunkIndex c = idx) (uploadedChunks cv) = None
           \<and> db (snd (uploadChunk vid idx buf w)) vid = Some cv'
           \<and> uploadedChunks cv' = uploadedChunks cv @
                [\<lparr>chunkIndex = idx, chunkPath = p, chunk_size = length buf,
                  uploadedAt = t, uploadAttempts = n\<rparr>]"
  using assms
  by (auto simp: uploadChunk_def uploadChunk_try_def findOne_def save_def Let_def
        calculateProgress_def checkCompletion_def
      split: option.splits prod.splits sum.splits if_splits)

text \<open>
  C2. For a session that the lookup finds and an index that is already among its chunk
  records, \<open>uploadChunk\<close> returns the status \<open>already_uploaded\<close> with the storage path
  of the existing record (the first one of that index), issues no storage call and
  leaves the session collection and the stored objects unchanged: the world differs
  only in that the lookup has been answered. In particular, after a call that uploaded
  the index, a second call for it (with any bytes) returns \<open>already_uploaded\<close> with
  the path of the first call and appends no record.
\<close>

theorem uploadChunk_idempotent:
  "(db_fate w 0 = None \<and> db w vid = Some cv \<and> idx \<in> chunkIndex ` set (uploadedChunks cv) \<longrightarrow>
      (\<exists>c \<in> set (uploadedChunks cv).
          chunkIndex c = idx
          \<and> find (\<lambda>c. chunkIndex c = idx) (uploadedChunks cv) = Some c
          \<and> fst (uploadChunk vid idx buf w) = Inr (AlreadyUploaded idx (chunkPath c)))
      \<and> snd (uploadChunk vid idx buf w) = w\<lparr>db_fate := shift (db_fate w)\<rparr>
      \<and> db (snd (uploadChunk vid idx buf w)) = db w
      \<and> objects (snd (uploadChunk vid idx buf w)) = objects w
      \<and> calls (snd (uploadChunk vid idx buf w)) = calls w)
   \<and> ((\<forall>cv. db w vid = Some cv \<longrightarrow> videoId cv = vid)
       \<and> fst (uploadChunk vid idx buf w) = Inr (Uploaded i p pr ic n)
       \<and> db_fate (snd (uploadChunk vid idx buf w)) 0 = None \<longrightarrow>
      fst (uploadChunk vid idx buf' (snd (uploadChunk vid idx buf w)))
        = Inr (AlreadyUploaded idx p)
      \<and> db (snd (uploadChunk vid idx buf' (snd (uploadChunk vid idx buf w))))
          = db (snd (uploadChunk vid idx buf w))
      \<and> objects (snd (uploadChunk vid idx buf' (snd (uploadChunk vid idx buf w))))
          = objects (snd (uploadChunk vid idx buf w))
      \<and> calls (snd (uploadChunk vid idx buf' (snd (uploadChunk vid idx buf w))))
          = calls (snd (uploadChunk vid idx buf w)))"
proof (intro conjI impI)
  assume h: "db_fate w 0 = None \<and> db w vid = Some cv \<and> idx \<in> chunkIndex ` set (uploadedChunks cv)"
  then obtain c where c: "c \<in> set (uploadedChunks cv)" "chunkIndex c = idx"
      "find (\<lambda>c. chunkIndex c = idx) (uploadedChunks cv) = Some c"
    using find_present [of idx chunkIndex "uploadedChunks cv"] by blast
  note run = uploadChunk_present [of w vid cv idx c buf]
  show "\<exists>c \<in> set (uploadedChunks cv).
          chunkIndex c = idx
          \<and> find (\<lambda>c. chunkIndex c = idx) (uploadedChunks cv) = Some c
          \<and> fst (uploadChunk vid idx buf w) = Inr (AlreadyUploaded idx (chunkPath c))"
    using c h run by auto
  show "snd (uploadChunk vid idx buf w) = w\<lparr>db_fate := shift (db_fate w)\<rparr>"
    using c h run by simp
  then show "db (snd (uploadChunk vid idx buf w)) = db w"
    "objects (snd (uploadChunk vid idx buf w)) = objects w"
    "calls (snd (uploadChunk vid idx buf w)) = calls w"
    by simp_all
next
  let ?w1 = "snd (uploadChunk vid idx buf w)"
  assume h: "(\<forall>cv. db w vid = Some cv \<longrightarrow> videoId cv = vid)
       \<and> fst (uploadChunk vid idx buf w) = Inr (Uploaded i p pr ic n)
       \<and> db_fate ?w1 0 = None"
  then obtain cv cv' t where first: "db w vid = Some cv"
      "find (\<lambda>c. chunkIndex c = idx) (uploadedChunks cv) = None"
      "db ?w1 vid = Some cv'"
      "uploadedChunks cv' = uploadedChunks cv @
                [\<lparr>chunkIndex = idx, chunkPath = p, chunk_size = length buf,
                  uploadedAt = t, uploadAttempts = n\<rparr>]"
    using uploadChunk_uploaded [of vid idx buf w i p pr ic n] by blast
  have "find (\<lambda>c. chunkIndex c = idx) (uploadedChunks cv')
          = Some \<lparr>chunkIndex = idx, chunkPath = p, chunk_size = length buf,
                  uploadedAt = t, uploadAttempts = n\<rparr>"
    using first by (simp add: find_snoc)
  with h first have again: "uploadChunk vid idx buf' ?w1
      = (Inr (AlreadyUploaded idx p), ?w1\<lparr>db_fate := shift (db_fate ?w1)\<rparr>)"
    using uploadChunk_present [of ?w1 vid cv' idx _ buf'] by simp
  then show "fst (uploadChunk vid idx buf' ?w1) = Inr (AlreadyUploaded idx p)"
    "db (snd (uploadChunk vid idx buf' ?w1)) = db ?w1"
    "objects (snd (uploadChunk vid idx buf' ?w1)) = objects ?w1"
    "calls (snd (uploadChunk vid idx buf' ?w1)) = calls ?w1"
    by simp_all
qed


lemma extname_Lecture: "extname ''Lecture.MKV'' = ''.MKV''"
  by (simp add: extname_def lastSegment_def)

lemmas upload_eval = uploadChunk_def uploadChunk_try_def findOne_def save_def Let_def
  calculateProgress_def checkCompletion_def chunk_record_def uploadAttempt_def
  storage_upload_def dateNow_def mathRandom_def sleep_def console_error_def shift_def
  MAX_RETRIES_def extname_Lecture

lemma upload_second_chunk:
  "fst (uploadChunk ''a1b2'' 1 (replicate 10 0) (holding partial_session))
     = Inr (Uploaded 1 (chunkFilename ''videos'' ''a1b2'' 1700000000000 1 ''.MKV'')
              (200 / 3) False 1)"
  by (simp add: upload_eval session_defs uploadWithRetry.simps)

theorem uploadChunk_idempotent_witness:
  "db_fate (holding partial_session) 0 = None
   \<and> db (holding partial_session) ''a1b2'' = Some partial_session
   \<and> 0 \<in> chunkIndex ` set (uploadedChunks partial_session)
   \<and> fst (uploadChunk ''a1b2'' 0 (replicate 10 0) (holding partial_session))
       = Inr (AlreadyUploaded 0 (chunkPath (chunk_record 0 10)))
   \<and> calls (snd (uploadChunk ''a1b2'' 0 (replicate 10 0) (holding partial_session))) = []
   \<and> fst (uploadChunk ''a1b2'' 1 (replicate 10 0) (holding partial_session))
       = Inr (Uploaded 1 (chunkFilename ''videos'' ''a1b2'' 1700000000000 1 ''.MKV'')
                (200 / 3) False 1)
   \<and> db_fate (snd (uploadChunk ''a1b2'' 1 (replicate 10 0) (holding partial_session))) 0 = None
   \<and> fst (uploadChunk ''a1b2'' 1 (replicate 3 7)
             (snd (uploadChunk ''a1b2'' 1 (replicate 10 0) (holding partial_session))))
       = Inr (AlreadyUploaded 1 (chunkFilename ''videos'' ''a1b2'' 1700000000000 1 ''.MKV''))"
proof -
  let ?w = "holding partial_session"
  let ?w1 = "snd (uploadChunk ''a1b2'' 1 (replicate 10 0) ?w)"
  have h1: "db_fate ?w 0 = None \<and> db ?w ''a1b2'' = Some partial_session
            \<and> 0 \<in> chunkIndex ` set (uploadedChunks partial_session)"
    by (simp add: session_defs chunk_record_def)
  have wf: "\<forall>cv. db ?w ''a1b2'' = Some cv \<longrightarrow> videoId cv = ''a1b2''"
    by (simp add: session_defs)
  note first = upload_second_chunk
  have fate: "db_fate ?w1 0 = None"
    by (simp add: upload_eval session_defs uploadWithRetry.simps)
  from uploadChunk_idempotent [where w = ?w and vid = "''a1b2''" and cv = partial_session
                                 and idx = 0 and buf = "replicate 10 0"] h1
  have c1: "fst (uploadChunk ''a1b2'' 0 (replicate 10 0) ?w)
              = Inr (AlreadyUploaded 0 (chunkPath (chunk_record 0 10)))
            \<and> calls (snd (uploadChunk ''a1b2'' 0 (replicate 10 0) ?w)) = []"
    by (simp add: session_defs)
  from uploadChunk_idempotent [where w = ?w and vid = "''a1b2''" and idx = 1
                                 and buf = "replicate 10 0" and buf' = "replicate 3 7"
                                 and i = 1 and pr = "200 / 3" and ic = False and n = 1
                                 and p = "chunkFilename ''videos'' ''a1b2'' 1700000000000 1 ''.MKV''"]
       wf first fate
  have c2: "fst (uploadChunk ''a1b2'' 1 (replicate 3 7) ?w1)
       = Inr (AlreadyUploaded 1 (chunkFilename ''videos'' ''a1b2'' 1700000000000 1 ''.MKV''))"
    by blast
  from h1 c1 first fate c2 show ?thesis by blast
qed

subsection \<open>The retry loop\<close>

lemma uploadAttempt_stored:
  assumes "upload_fate w 0 = Stored"
  shows "uploadAttempt b fname buf idx n w
           = (Inr fname,
              w\<lparr>calls := calls w @ [Upload b fname (Bytes buf) False],
                upload_fate := shift (upload_fate w),
                objects := (objects w)((b, fname) \<mapsto> Bytes buf)\<rparr>)"
  using assms by (simp add: uploadAttempt_def storage_upload_def)

lemma uploadAttempt_failed:
  assumes "upload_fate w 0 \<noteq> Stored"
  shows "\<exists>err w1. uploadAttempt b fname buf idx n w = (Inl err, w1)
           \<and> calls w1 = calls w @ [Upload b fname (Bytes buf) False]
           \<and> upload_fate w1 = shift (upload_fate w)
           \<and> random w1 = random w \<and> clock w1 = clock w \<and> db w1 = db w
           \<and> objects w1 = objects w \<and> db_fate w1 = db_fate w"
  using assms
  by (cases "upload_fate w 0")
     (simp_all add: uploadAttempt_def storage_upload_def console_error_def)

text \<open>One failed attempt that is not the last: the loop goes on in a world that differs by
  the upload call, the sleep, and the consumed answers.\<close>

lemma retry_step_failed:
  assumes "upload_fate w 0 \<noteq> Stored" "a + 1 < MAX_RETRIES"
  shows "\<exists>w1. uploadWithRetry b fname buf idx a w = uploadWithRetry b fname buf idx (a + 1) w1
           \<and> calls w1 = calls w @ [Upload b fname (Bytes buf) False,
                                     Sleep (waitTime (a + 1) (random w 0))]
           \<and> upload_fate w1 = shift (upload_fate w)
           \<and> random w1 = shift (random w) \<and> clock w1 = clock w \<and> db w1 = db w
           \<and> objects w1 = objects w \<and> db_fate w1 = db_fate w"
proof -
  obtain err w1 where att: "uploadAttempt b fname buf idx (a + 1) w = (Inl err, w1)"
      "calls w1 = calls w @ [Upload b fname (Bytes buf) False]"
      "upload_fate w1 = shift (upload_fate w)"
      "random w1 = random w" "clock w1 = clock w" "db w1 = db w"
      "objects w1 = objects w" "db_fate w1 = db_fate w"
    using uploadAttempt_failed [OF assms(1)] by blast
  show ?thesis
    apply (subst uploadWithRetry.simps)
    using assms(2) att
    apply (simp add: Let_def console_error_def sleep_def mathRandom_def)
    apply (rule exI, rule conjI, rule refl)
    apply simp
    done
qed

lemma retry_step_last:
  assumes "upload_fate w 0 \<noteq> Stored" "a + 1 = MAX_RETRIES"
  shows "\<exists>err w1. uploadWithRetry b fname buf idx a w
             = (Inl (RetriesExhausted idx MAX_RETRIES err (length buf) b (clock w 0)), w1)
           \<and> calls w1 = calls w @ [Upload b fname (Bytes buf) False]
           \<and> db w1 = db w \<and> objects w1 = objects w \<and> db_fate w1 = db_fate w"
proof -
  obtain err w1 where att: "uploadAttempt b fname buf idx (a + 1) w = (Inl err, w1)"
      "calls w1 = calls w @ [Upload b fname (Bytes buf) False]"
      "upload_fate w1 = shift (upload_fate w)"
      "random w1 = random w" "clock w1 = clock w" "db w1 = db w"
      "objects w1 = objects w" "db_fate w1 = db_fate w"
    using uploadAttempt_failed [OF assms(1)] by blast
  have lt: "a < MAX_RETRIES" using assms(2) by simp
  show ?thesis
    apply (subst uploadWithRetry.simps)
    using assms(2) att lt
    apply (simp add: Let_def console_error_def dateNow_def)
    done
qed

lemma retry_step_stored:
  assumes "upload_fate w 0 = Stored" "a < MAX_RETRIES"
  shows "uploadWithRetry b fname buf idx a w
           = (Inr (fname, a + 1),
              w\<lparr>calls := calls w @ [Upload b fname (Bytes buf) False],
                upload_fate := shift (upload_fate w),
                objects := (objects w)((b, fname) \<mapsto> Bytes buf)\<rparr>)"
  by (subst uploadWithRetry.simps) (simp add: assms uploadAttempt_stored)

lemma retry_calls_Suc:
  "retry_calls b fname buf a rnd (Suc k)
     = [Upload b fname (Bytes buf) False, Sleep (waitTime (a + 1) (rnd 0))]
       @ retry_calls b fname buf (a + 1) (shift rnd) k"
proof -
  have "[0..<Suc k] = 0 # map Suc [0..<k]"
    by (simp add: upt_conv_Cons map_Suc_upt del: upt_Suc)
  then show ?thesis
    by (simp add: shift_def comp_def del: upt_Suc)
qed

lemma retry_calls_step:
  assumes "cs1 = cs @ [Upload b fname (Bytes buf) False, Sleep (waitTime (a + 1) (rnd 0))]"
    and "cs2 = cs1 @ retry_calls b fname buf (a + 1) (shift rnd) k @ rest"
  shows "cs2 = cs @ retry_calls b fname buf a rnd (Suc k) @ rest"
  unfolding assms retry_calls_Suc by simp

lemma retry_failures_then_stored:
  assumes "\<forall>j<k. upload_fate w j \<noteq> Stored" "upload_fate w k = Stored" "a + k < MAX_RETRIES"
  shows "fst (uploadWithRetry b fname buf idx a w) = Inr (fname, a + k + 1)
    \<and> calls (snd (uploadWithRetry b fname buf idx a w))
        = calls w @ retry_calls b fname buf a (random w) k @ [Upload b fname (Bytes buf) False]
    \<and> db (snd (uploadWithRetry b fname buf idx a w)) = db w
    \<and> db_fate (snd (uploadWithRetry b fname buf idx a w)) = db_fate w
    \<and> clock (snd (uploadWithRetry b fname buf idx a w)) = clock w
    \<and> objects (snd (uploadWithRetry b fname buf idx a w)) = (objects w)((b, fname) \<mapsto> Bytes buf)"
  using assms
proof (induction k arbitrary: a w)
  case 0
  then show ?case by (simp add: retry_step_stored)
next
  case (Suc k)
  have f0: "upload_fate w 0 \<noteq> Stored" using Suc.prems(1) by simp
  have lt: "a + 1 < MAX_RETRIES" using Suc.prems(3) by simp
  obtain w1 where w1: "uploadWithRetry b fname buf idx a w = uploadWithRetry b fname buf idx (a + 1) w1"
      "calls w1 = calls w @ [Upload b fname (Bytes buf) False, Sleep (waitTime (a + 1) (random w 0))]"
      "upload_fate w1 = shift (upload_fate w)"
      "random w1 = shift (random w)" "clock w1 = clock w" "db w1 = db w"
      "objects w1 = objects w" "db_fate w1 = db_fate w"
    using retry_step_failed [OF f0 lt] by blast
  have p1: "\<forall>j<k. upload_fate w1 j \<noteq> Stored" using Suc.prems(1) by (simp add: w1 shift_def)
  have p2: "upload_fate w1 k = Stored" using Suc.prems(2) by (simp add: w1 shift_def)
  have p3: "a + 1 + k < MAX_RETRIES" using Suc.prems(3) by simp
  note ih = Suc.IH [OF p1 p2 p3]
  from ih have "calls (snd (uploadWithRetry b fname buf idx (a + 1) w1))
          = calls w1 @ retry_calls b fname buf (a + 1) (random w1) k
              @ [Upload b fname (Bytes buf) False]"
    by blast
  from retry_calls_step [OF w1(2) this [unfolded w1(4)]]
  have "calls (snd (uploadWithRetry b fname buf idx a w))
          = calls w @ retry_calls b fname buf a (random w) (Suc k)
              @ [Upload b fname (Bytes buf) False]"
    unfolding w1(1) .
  moreover have "fst (uploadWithRetry b fname buf idx a w) = Inr (fname, a + Suc k + 1)"
    unfolding w1(1) using ih by simp
  moreover from ih have "db (snd (uploadWithRetry b fname buf idx a w)) = db w"
    "db_fate (snd (uploadWithRetry b fname buf idx a w)) = db_fate w"
    "clock (snd (uploadWithRetry b fname buf idx a w)) = clock w"
    "objects (snd (uploadWithRetry b fname buf idx a w)) = (objects w)((b, fname) \<mapsto> Bytes buf)"
    unfolding w1 by blast+
  ultimately show ?case by blast
qed

lemma retry_all_failed:
  assumes "\<forall>j\<le>k. upload_fate w j \<noteq> Stored" "a + k + 1 = MAX_RETRIES"
  shows "(\<exists>err. fst (uploadWithRetry b fname buf idx a w)
             = Inl (RetriesExhausted idx MAX_RETRIES err (length buf) b (clock w 0)))
    \<and> calls (snd (uploadWithRetry b fname buf idx a w))
        = calls w @ retry_calls b fname buf a (random w) k @ [Upload b fname (Bytes buf) False]
    \<and> db (snd (uploadWithRetry b fname buf idx a w)) = db w
    \<and> db_fate (snd (uploadWithRetry b fname buf idx a w)) = db_fate w
    \<and> objects (snd (uploadWithRetry b fname buf idx a w)) = objects w"
  using assms
proof (induction k arbitrary: a w)
  case 0
  have f0: "upload_fate w 0 \<noteq> Stored" using "0.prems"(1) by simp
  have lt: "a + 1 = MAX_RETRIES" using "0.prems"(2) by simp
  from retry_step_last [OF f0 lt, of b fname buf idx] show ?case
    by auto
next
  case (Suc k)
  have f0: "upload_fate w 0 \<noteq> Stored" using Suc.prems(1) by simp
  have lt: "a + 1 < MAX_RETRIES" using Suc.prems(2) by simp
  obtain w1 where w1: "uploadWithRetry b fname buf idx a w = uploadWithRetry b fname buf idx (a + 1) w1"
      "calls w1 = calls w @ [Upload b fname (Bytes buf) False, Sleep (waitTime (a + 1) (random w 0))]"
      "upload_fate w1 = shift (upload_fate w)"
      "random w1 = shift (random w)" "clock w1 = clock w" "db w1 = db w"
      "objects w1 = objects w" "db_fate w1 = db_fate w"
    using retry_step_failed [OF f0 lt] by blast
  have p1: "\<forall>j\<le>k. upload_fate w1 j \<noteq> Stored" using Suc.prems(1) by (simp add: w1 shift_def)
  have p3: "a + 1 + k + 1 = MAX_RETRIES" using Suc.prems(2) by simp
  note ih = Suc.IH [OF p1 p3]
  from ih have "calls (snd (uploadWithRetry b fname buf idx (a + 1) w1))
          = calls w1 @ retry_calls b fname buf (a + 1) (random w1) k
              @ [Upload b fname (Bytes buf) False]"
    by blast
  from retry_calls_step [OF w1(2) this [unfolded w1(4)]]
  have "calls (snd (uploadWithRetry b fname buf idx a w))
          = calls w @ retry_calls b fname buf a (random w) (Suc k)
              @ [Upload b fname (Bytes buf) False]"
    unfolding w1(1) .
  moreover have "\<exists>err. fst (uploadWithRetry b fname buf idx a w)
             = Inl (RetriesExhausted idx MAX_RETRIES err (length buf) b (clock w 0))"
    unfolding w1(1) using ih by (simp add: w1)
  moreover from ih have "db (snd (uploadWithRetry b fname buf idx a w)) = db w"
    "db_fate (snd (uploadWithRetry b fname buf idx a w)) = db_fate w"
    "objects (snd (uploadWithRetry b fname buf idx a w)) = objects w"
    unfolding w1 by blast+
  ultimately show ?case by blast
qed

lemma uploadChunk_try_transfer:
  assumes "db_fate w 0 = None" "db w vid = Some cv"
    "idx \<notin> chunkIndex ` set (uploadedChunks cv)"
  shows "uploadChunk_try vid idx buf w =
     (let fname = chunkFilename (folder cv) vid (clock w 0) idx (extname (originalFilename cv))
      in case uploadWithRetry (bucket cv) fname buf idx 0
                (w\<lparr>db_fate := shift (db_fate w), clock := shift (clock w)\<rparr>) of
           (Inl err, w3) \<Rightarrow> (Inl err, w3)
         | (Inr (p, attempts), w3) \<Rightarrow>
             (let cv' = checkCompletion (calculateProgress
                          (cv\<lparr>uploadedChunks := uploadedChunks cv @
                               [\<lparr>chunkIndex = idx, chunkPath = p, chunk_size = length buf,
                                 uploadedAt = clock w3 0, uploadAttempts = attempts\<rparr>]\<rparr>))
              in case save cv' (w3\<lparr>clock := shift (clock w3)\<rparr>) of
                   (Inl err, w5) \<Rightarrow> (Inl err, w5)
                 | (Inr u, w5) \<Rightarrow>
                     (Inr (Uploaded idx p (uploadProgress cv') (isComplete cv') attempts), w5)))"
proof -
  have "find (\<lambda>c. chunkIndex c = idx) (uploadedChunks cv) = None"
    using assms(3) by (auto simp: find_None_iff)
  then show ?thesis
    using assms(1,2)
    by (simp add: uploadChunk_try_def findOne_def dateNow_def Let_def
          split: prod.splits sum.splits)
qed

lemma uploadChunk_after_failures:
  assumes found: "db_fate w 0 = None" "db w vid = Some cv"
      "idx \<notin> chunkIndex ` set (uploadedChunks cv)"
    and fails: "\<forall>j<k. upload_fate w j \<noteq> Stored"
    and stored: "upload_fate w k = Stored"
    and k: "k < MAX_RETRIES"
    and saved: "db_fate w 1 = None"
  shows "\<exists>pr ic. fst (uploadChunk vid idx buf w)
             = Inr (Uploaded idx (chunkFilename (folder cv) vid (clock w 0) idx
                                    (extname (originalFilename cv))) pr ic (k + 1))"
    and "\<exists>cv'. db (snd (uploadChunk vid idx buf w)) (videoId cv) = Some cv'
           \<and> uploadedChunks cv' = uploadedChunks cv @
                [\<lparr>chunkIndex = idx,
                  chunkPath = chunkFilename (folder cv) vid (clock w 0) idx
                                (extname (originalFilename cv)),
                  chunk_size = length buf, uploadedAt = clock w 1, uploadAttempts = k + 1\<rparr>]"
    and "calls (snd (uploadChunk vid idx buf w))
          = calls w
            @ concat (map (\<lambda>j. [Upload (bucket cv)
                                    (chunkFilename (folder cv) vid (clock w 0) idx
                                       (extname (originalFilename cv))) (Bytes buf) False,
                                  Sleep (waitTime (j + 1) (random w j))]) [0..<k])
            @ [Upload (bucket cv) (chunkFilename (folder cv) vid (clock w 0) idx
                                     (extname (originalFilename cv))) (Bytes buf) False]"
proof -
  let ?fname = "chunkFilename (folder cv) vid (clock w 0) idx (extname (originalFilename cv))"
  let ?w2 = "w\<lparr>db_fate := shift (db_fate w), clock := shift (clock w)\<rparr>"
  have a: "\<forall>j<k. upload_fate ?w2 j \<noteq> Stored" using fails by simp
  have b: "upload_fate ?w2 k = Stored" using stored by simp
  have c: "0 + k < MAX_RETRIES" using k by simp
  note loop = retry_failures_then_stored [OF a b c, of "bucket cv" ?fname buf idx]
  obtain w3 where w3: "uploadWithRetry (bucket cv) ?fname buf idx 0 ?w2 = (Inr (?fname, k + 1), w3)"
    using loop by (cases "uploadWithRetry (bucket cv) ?fname buf idx 0 ?w2") auto
  have w3_props: "calls w3 = calls w @ retry_calls (bucket cv) ?fname buf 0 (random w) k
                     @ [Upload (bucket cv) ?fname (Bytes buf) False]"
    "db w3 = db w" "db_fate w3 = shift (db_fate w)" "clock w3 = shift (clock w)"
    using loop w3 by simp_all
  have sv: "db_fate w3 0 = None" using saved w3_props by (simp add: shift_def)
  have run: "uploadChunk_try vid idx buf w =
      (let cv' = checkCompletion (calculateProgress
                          (cv\<lparr>uploadedChunks := uploadedChunks cv @
                               [\<lparr>chunkIndex = idx, chunkPath = ?fname, chunk_size = length buf,
                                 uploadedAt = clock w3 0, uploadAttempts = k + 1\<rparr>]\<rparr>))
       in (Inr (Uploaded idx ?fname (uploadProgress cv') (isComplete cv') (k + 1)),
           w3\<lparr>clock := shift (clock w3), db_fate := shift (db_fate w3),
              db := (db w3)(videoId cv' \<mapsto> cv')\<rparr>))"
    using sv by (simp add: uploadChunk_try_transfer [OF found] w3 save_def Let_def)
  show "\<exists>pr ic. fst (uploadChunk vid idx buf w) = Inr (Uploaded idx ?fname pr ic (k + 1))"
    by (simp add: uploadChunk_def run Let_def)
  show "\<exists>cv'. db (snd (uploadChunk vid idx buf w)) (videoId cv) = Some cv'
           \<and> uploadedChunks cv' = uploadedChunks cv @
                [\<lparr>chunkIndex = idx, chunkPath = ?fname,
                  chunk_size = length buf, uploadedAt = clock w 1, uploadAttempts = k + 1\<rparr>]"
    by (simp add: uploadChunk_def run Let_def checkCompletion_def calculateProgress_def
          w3_props shift_def)
  show "calls (snd (uploadChunk vid idx buf w))
          = calls w
            @ concat (map (\<lambda>j. [Upload (bucket cv) ?fname (Bytes buf) False,
                                  Sleep (waitTime (j + 1) (random w j))]) [0..<k])
            @ [Upload (bucket cv) ?fname (Bytes buf) False]"
    by (simp add: uploadChunk_def run Let_def w3_props)
qed

lemma uploadChunk_all_failed:
  assumes found: "db_fate w 0 = None" "db w vid = Some cv"
      "idx \<notin> chunkIndex ` set (uploadedChunks cv)"
    and fails: "\<forall>j<MAX_RETRIES. upload_fate w j \<noteq> Stored"
  shows "\<exists>err. fst (uploadChunk vid idx buf w)
             = Inl (UploadChunkFailed idx
                     (RetriesExhausted idx MAX_RETRIES err (length buf) (bucket cv) (clock w 1)))"
    and "db (snd (uploadChunk vid idx buf w)) = db w"
    and "objects (snd (uploadChunk vid idx buf w)) = objects w"
    and "calls (snd (uploadChunk vid idx buf w))
          = calls w
            @ concat (map (\<lambda>j. [Upload (bucket cv)
                                    (chunkFilename (folder cv) vid (clock w 0) idx
                                       (extname (originalFilename cv))) (Bytes buf) False,
                                  Sleep (waitTime (j + 1) (random w j))]) [0..<MAX_RETRIES - 1])
            @ [Upload (bucket cv) (chunkFilename (folder cv) vid (clock w 0) idx
                                     (extname (originalFilename cv))) (Bytes buf) False]"
proof -
  let ?fname = "chunkFilename (folder cv) vid (clock w 0) idx (extname (originalFilename cv))"
  let ?w2 = "w\<lparr>db_fate := shift (db_fate w), clock := shift (clock w)\<rparr>"
  have pos: "0 < MAX_RETRIES" by (simp add: MAX_RETRIES_def)
  have a: "\<forall>j\<le>MAX_RETRIES - 1. upload_fate ?w2 j \<noteq> Stored" using fails pos by simp
  have c: "0 + (MAX_RETRIES - 1) + 1 = MAX_RETRIES" using pos by simp
  note loop = retry_all_failed [OF a c, of "bucket cv" ?fname buf idx]
  obtain err w3 where w3: "uploadWithRetry (bucket cv) ?fname buf idx 0 ?w2
       = (Inl (RetriesExhausted idx MAX_RETRIES err (length buf) (bucket cv) (clock w 1)), w3)"
    using loop by (cases "uploadWithRetry (bucket cv) ?fname buf idx 0 ?w2") (auto simp: shift_def)
  have w3_props: "calls w3 = calls w @ retry_calls (bucket cv) ?fname buf 0 (random w) (MAX_RETRIES - 1)
                     @ [Upload (bucket cv) ?fname (Bytes buf) False]"
    "db w3 = db w" "objects w3 = objects w"
    using loop w3 by simp_all
  have run: "uploadChunk_try vid idx buf w
      = (Inl (RetriesExhausted idx MAX_RETRIES err (length buf) (bucket cv) (clock w 1)), w3)"
    by (simp add: uploadChunk_try_transfer [OF found] w3 Let_def)
  show "\<exists>err. fst (uploadChunk vid idx buf w)
             = Inl (UploadChunkFailed idx
                     (RetriesExhausted idx MAX_RETRIES err (length buf) (bucket cv) (clock w 1)))"
    by (simp add: uploadChunk_def run)
  show "db (snd (uploadChunk vid idx buf w)) = db w"
    "objects (snd (uploadChunk vid idx buf w)) = objects w"
    by (simp_all add: uploadChunk_def run w3_props console_error_def)
  show "calls (snd (uploadChunk vid idx buf w))
          = calls w
            @ concat (map (\<lambda>j. [Upload (bucket cv) ?fname (Bytes buf) False,
                                  Sleep (waitTime (j + 1) (random w j))]) [0..<MAX_RETRIES - 1])
            @ [Upload (bucket cv) ?fname (Bytes buf) False]"
    by (simp add: uploadChunk_def run w3_props console_error_def)
qed

lemma retry_calls_shape:
  "\<exists>cs. calls (snd (uploadWithRetry b fname buf idx a w)) = calls w @ cs
        \<and> (\<forall>c \<in> set cs. c = Upload b fname (Bytes buf) False \<or> (\<exists>d. c = Sleep d))"
proof (induction "MAX_RETRIES - a" arbitrary: a w)
  case 0
  then have "\<not> a < MAX_RETRIES" by simp
  then show ?case by (subst uploadWithRetry.simps) simp
next
  case (Suc m)
  then have lt: "a < MAX_RETRIES" by simp
  show ?case
  proof (cases "upload_fate w 0 = Stored")
    case True
    show ?thesis by (simp add: retry_step_stored [OF True lt])
  next
    case False
    show ?thesis
    proof (cases "a + 1 < MAX_RETRIES")
      case True
      obtain w1 where w1:
          "uploadWithRetry b fname buf idx a w = uploadWithRetry b fname buf idx (a + 1) w1"
          "calls w1 = calls w @ [Upload b fname (Bytes buf) False,
                                 Sleep (waitTime (a + 1) (random w 0))]"
        using retry_step_failed [OF False True] by blast
      have "m = MAX_RETRIES - (a + 1)" using Suc.hyps(2) by simp
      from Suc.hyps(1) [OF this, of w1]
      obtain cs where cs: "calls (snd (uploadWithRetry b fname buf idx (a + 1) w1)) = calls w1 @ cs"
          "\<forall>c \<in> set cs. c = Upload b fname (Bytes buf) False \<or> (\<exists>d. c = Sleep d)"
        by blast
      have "calls (snd (uploadWithRetry b fname buf idx a w))
              = calls w @ ([Upload b fname (Bytes buf) False,
                            Sleep (waitTime (a + 1) (random w 0))] @ cs)"
        unfolding w1(1) cs(1) w1(2) by simp
      moreover have "\<forall>c \<in> set ([Upload b fname (Bytes buf) False,
                            Sleep (waitTime (a + 1) (random w 0))] @ cs).
                        c = Upload b fname (Bytes buf) False \<or> (\<exists>d. c = Sleep d)"
        using cs(2) by auto
      ultimately show ?thesis by blast
    next
      case last: False
      with lt have "a + 1 = MAX_RETRIES" by simp
      from retry_step_last [OF False this, of b fname buf idx]
      show ?thesis by auto
    qed
  qed
qed

lemma uploadChunk_calls_shape:
  assumes "db_fate w 0 = None" "db w vid = Some cv"
  shows "\<exists>cs. calls (snd (uploadChunk vid idx buf w)) = calls w @ cs
          \<and> (\<forall>c \<in> set cs.
                c = Upload (bucket cv)
                      (chunkFilename (folder cv) vid (clock w 0) idx (extname (originalFilename cv)))
                      (Bytes buf) False
                \<or> (\<exists>d. c = Sleep d))"
proof (cases "idx \<in> chunkIndex ` set (uploadedChunks cv)")
  case True
  then obtain c where "find (\<lambda>c. chunkIndex c = idx) (uploadedChunks cv) = Some c"
    using find_present [of idx chunkIndex "uploadedChunks cv"] by blast
  from uploadChunk_present [OF assms this] show ?thesis by simp
next
  case False
  let ?fname = "chunkFilename (folder cv) vid (clock w 0) idx (extname (originalFilename cv))"
  let ?w2 = "w\<lparr>db_fate := shift (db_fate w), clock := shift (clock w)\<rparr>"
  obtain cs where cs:
      "calls (snd (uploadWithRetry (bucket cv) ?fname buf idx 0 ?w2)) = calls ?w2 @ cs"
      "\<forall>c \<in> set cs. c = Upload (bucket cv) ?fname (Bytes buf) False \<or> (\<exists>d. c = Sleep d)"
    using retry_calls_shape [of "bucket cv" ?fname buf idx 0 ?w2] by blast
  have "calls (snd (uploadChunk vid idx buf w))
          = calls (snd (uploadWithRetry (bucket cv) ?fname buf idx 0 ?w2))"
    by (simp add: uploadChunk_def uploadChunk_try_transfer [OF assms False] Let_def save_def
          console_error_def split: prod.splits sum.splits option.splits)
  with cs show ?thesis by auto
qed





lemma uploadChunk_calls_after_failures:
  assumes found: "db_fate w 0 = None" "db w vid = Some cv"
      "idx \<notin> chunkIndex ` set (uploadedChunks cv)"
    and fails: "\<forall>j<k. upload_fate w j \<noteq> Stored"
    and stored: "upload_fate w k = Stored"
    and k: "k < MAX_RETRIES"
  shows "calls (snd (uploadChunk vid idx buf w))
          = calls w
            @ retry_calls (bucket cv)
                (chunkFilename (folder cv) vid (clock w 0) idx (extname (originalFilename cv)))
                buf 0 (random w) k
            @ [Upload (bucket cv) (chunkFilename (folder cv) vid (clock w 0) idx
                                     (extname (originalFilename cv))) (Bytes buf) False]"
proof -
  let ?fname = "chunkFilename (folder cv) vid (clock w 0) idx (extname (originalFilename cv))"
  let ?w2 = "w\<lparr>db_fate := shift (db_fate w), clock := shift (clock w)\<rparr>"
  have a: "\<forall>j<k. upload_fate ?w2 j \<noteq> Stored" using fails by simp
  have b: "upload_fate ?w2 k = Stored" using stored by simp
  have c: "0 + k < MAX_RETRIES" using k by simp
  note loop = retry_failures_then_stored [OF a b c, of "bucket cv" ?fname buf idx]
  have "calls (snd (uploadChunk vid idx buf w))
          = calls (snd (uploadWithRetry (bucket cv) ?fname buf idx 0 ?w2))"
    by (simp add: uploadChunk_def uploadChunk_try_transfer [OF found] Let_def save_def
          console_error_def split: prod.splits sum.splits option.splits)
  with loop show ?thesis by simp
qed

text \<open>
  C3. For a session that the lookup finds and an index not yet among its chunk records:
  if the first \<open>MAX_RETRIES - 1\<close> uploads fail (each in any of the ways an attempt can
  fail) and the next one is stored, and the session can be saved, \<open>uploadChunk\<close>
  returns the status \<open>uploaded\<close> with \<open>uploadAttempts = MAX_RETRIES\<close> and records a
  chunk with that count; if all \<open>MAX_RETRIES\<close> uploads fail, it throws the error of
  exhausted retries, which carries the chunk index, the number of attempts, the byte
  size of the chunk, the bucket and a timestamp, and no chunk is recorded.
\<close>

theorem retry_budget:
  assumes found: "db_fate w 0 = None" "db w vid = Some cv"
      "idx \<notin> chunkIndex ` set (uploadedChunks cv)"
  shows "((\<forall>j<MAX_RETRIES - 1. upload_fate w j \<noteq> Stored)
          \<and> upload_fate w (MAX_RETRIES - 1) = Stored \<and> db_fate w 1 = None \<longrightarrow>
            (\<exists>p pr ic. fst (uploadChunk vid idx buf w) = Inr (Uploaded idx p pr ic MAX_RETRIES))
            \<and> (\<exists>cv' c. db (snd (uploadChunk vid idx buf w)) (videoId cv) = Some cv'
                  \<and> uploadedChunks cv' = uploadedChunks cv @ [c]
                  \<and> chunkIndex c = idx \<and> uploadAttempts c = MAX_RETRIES))
       \<and> ((\<forall>j<MAX_RETRIES. upload_fate w j \<noteq> Stored) \<longrightarrow>
            (\<exists>lastError. fst (uploadChunk vid idx buf w)
               = Inl (UploadChunkFailed idx
                       (RetriesExhausted idx MAX_RETRIES lastError (length buf) (bucket cv)
                          (clock w 1))))
            \<and> db (snd (uploadChunk vid idx buf w)) = db w)"
proof (intro conjI impI)
  assume h: "(\<forall>j<MAX_RETRIES - 1. upload_fate w j \<noteq> Stored)
          \<and> upload_fate w (MAX_RETRIES - 1) = Stored \<and> db_fate w 1 = None"
  have k: "MAX_RETRIES - 1 < MAX_RETRIES" "MAX_RETRIES - 1 + 1 = MAX_RETRIES"
    by (simp_all add: MAX_RETRIES_def)
  from h have fails: "\<forall>j<MAX_RETRIES - 1. upload_fate w j \<noteq> Stored"
    and stored: "upload_fate w (MAX_RETRIES - 1) = Stored" and saved: "db_fate w 1 = None"
    by blast+
  from uploadChunk_after_failures(1) [OF found fails stored k(1) saved, of buf]
  show "\<exists>p pr ic. fst (uploadChunk vid idx buf w) = Inr (Uploaded idx p pr ic MAX_RETRIES)"
    unfolding k(2) by blast
  from uploadChunk_after_failures(2) [OF found fails stored k(1) saved, of buf]
  show "\<exists>cv' c. db (snd (uploadChunk vid idx buf w)) (videoId cv) = Some cv'
                  \<and> uploadedChunks cv' = uploadedChunks cv @ [c]
                  \<and> chunkIndex c = idx \<and> uploadAttempts c = MAX_RETRIES"
    unfolding k(2) by force
next
  assume h: "\<forall>j<MAX_RETRIES. upload_fate w j \<noteq> Stored"
  from uploadChunk_all_failed(1) [OF found h, of buf]
  show "\<exists>lastError. fst (uploadChunk vid idx buf w)
               = Inl (UploadChunkFailed idx
                       (RetriesExhausted idx MAX_RETRIES lastError (length buf) (bucket cv)
                          (clock w 1)))" .
  from uploadChunk_all_failed(2) [OF found h, of buf]
  show "db (snd (uploadChunk vid idx buf w)) = db w" .
qed

lemma waitTime_formula:
  "waitTime n r = min (RETRY_DELAY_BASE * 2 ^ (n - 1) + r * 2000) 30000"
  by (simp add: waitTime_def Let_def)

text \<open>
  C4. In a run of \<open>uploadChunk\<close> that reaches the transfer, let the first \<open>k\<close>
  attempts fail, followed either by a stored attempt or, when \<open>k = MAX_RETRIES - 1\<close>,
  by the last attempt. Then every failed attempt \<open>j + 1\<close> (\<open>j < k\<close>) is followed by
  one wait of \<open>min(RETRY_DELAY_BASE * 2^(attempt - 1) + jitter, 30000)\<close> milliseconds
  before the next attempt, where \<open>jitter = Math.random() * 2000\<close> lies in
  \<open>[0, 2000)\<close> and \<open>RETRY_DELAY_BASE = 2000\<close>; the last attempt is followed by no
  wait.
\<close>

theorem backoff_delays:
  assumes found: "db_fate w 0 = None" "db w vid = Some cv"
      "idx \<notin> chunkIndex ` set (uploadedChunks cv)"
    and fails: "\<forall>j<k. upload_fate w j \<noteq> Stored"
    and k: "k < MAX_RETRIES"
    and after: "upload_fate w k = Stored \<or> k + 1 = MAX_RETRIES"
    and rand: "\<forall>j<k. 0 \<le> random w j \<and> random w j < 1"
  shows "calls (snd (uploadChunk vid idx buf w))
          = calls w
            @ concat (map (\<lambda>j. [Upload (bucket cv)
                                    (chunkFilename (folder cv) vid (clock w 0) idx
                                       (extname (originalFilename cv))) (Bytes buf) False,
                                  Sleep (min (RETRY_DELAY_BASE * 2 ^ (j + 1 - 1)
                                              + random w j * 2000) 30000)]) [0..<k])
            @ [Upload (bucket cv) (chunkFilename (folder cv) vid (clock w 0) idx
                                     (extname (originalFilename cv))) (Bytes buf) False]
         \<and> (\<forall>j<k. 0 \<le> random w j * 2000 \<and> random w j * 2000 < 2000)
         \<and> RETRY_DELAY_BASE = 2000"
proof -
  let ?fname = "chunkFilename (folder cv) vid (clock w 0) idx (extname (originalFilename cv))"
  have calls: "calls (snd (uploadChunk vid idx buf w))
          = calls w @ retry_calls (bucket cv) ?fname buf 0 (random w) k
              @ [Upload (bucket cv) ?fname (Bytes buf) False]"
  proof (cases "upload_fate w k = Stored")
    case True
    from uploadChunk_calls_after_failures [OF found fails True k] show ?thesis .
  next
    case False
    with after have last: "k + 1 = MAX_RETRIES" by simp
    then have k': "k = MAX_RETRIES - 1" by simp
    have "\<forall>j<MAX_RETRIES. upload_fate w j \<noteq> Stored"
    proof (intro allI impI)
      fix j assume "j < MAX_RETRIES"
      then have "j < k \<or> j = k" using last by auto
      then show "upload_fate w j \<noteq> Stored" using fails False by auto
    qed
    from uploadChunk_all_failed(4) [OF found this, of buf] show ?thesis
      unfolding k' by simp
  qed
  have jitter: "\<forall>j<k. 0 \<le> random w j * 2000 \<and> random w j * 2000 < 2000"
    using rand by auto
  from calls jitter show ?thesis
    by (simp add: waitTime_formula RETRY_DELAY_BASE_def)
qed










lemma flaky_found:
  "db_fate (flaky_world k) 0 = None"
  "db (flaky_world k) ''a1b2'' = Some partial_session"
  by (simp_all add: flaky_world_def session_defs)

lemma second_chunk_absent: "1 \<notin> chunkIndex ` set (uploadedChunks partial_session)"
  by (simp add: session_defs chunk_record_def)

theorem retry_budget_witness:
  "db_fate (flaky_world 4) 0 = None \<and> db (flaky_world 4) ''a1b2'' = Some partial_session
   \<and> 1 \<notin> chunkIndex ` set (uploadedChunks partial_session)
   \<and> map (upload_fate (flaky_world 4)) [0..<MAX_RETRIES]
       = [TimedOut, TimedOut, TimedOut, TimedOut, Stored]
   \<and> db_fate (flaky_world 4) 1 = None
   \<and> (\<exists>p pr ic. fst (uploadChunk ''a1b2'' 1 (replicate 10 0) (flaky_world 4))
                    = Inr (Uploaded 1 p pr ic 5))
   \<and> map (upload_fate (flaky_world 5)) [0..<MAX_RETRIES]
       = [TimedOut, TimedOut, TimedOut, TimedOut, TimedOut]
   \<and> (\<exists>lastError. fst (uploadChunk ''a1b2'' 1 (replicate 10 0) (flaky_world 5))
          = Inl (UploadChunkFailed 1
                  (RetriesExhausted 1 5 lastError 10 ''videos'' 1700000000001)))"
proof -
  have h4: "(\<forall>j<MAX_RETRIES - 1. upload_fate (flaky_world 4) j \<noteq> Stored)
            \<and> upload_fate (flaky_world 4) (MAX_RETRIES - 1) = Stored
            \<and> db_fate (flaky_world 4) 1 = None"
    by (simp add: flaky_world_def MAX_RETRIES_def session_defs)
  have h5: "\<forall>j<MAX_RETRIES. upload_fate (flaky_world 5) j \<noteq> Stored"
    by (simp add: flaky_world_def MAX_RETRIES_def)
  from retry_budget [OF flaky_found [of 4] second_chunk_absent, where buf = "replicate 10 0"] h4
  have c4: "\<exists>p pr ic. fst (uploadChunk ''a1b2'' 1 (replicate 10 0) (flaky_world 4))
                    = Inr (Uploaded 1 p pr ic 5)"
    by (simp add: MAX_RETRIES_def)
  from retry_budget [OF flaky_found [of 5] second_chunk_absent, where buf = "replicate 10 0"] h5
  have c5: "\<exists>lastError. fst (uploadChunk ''a1b2'' 1 (replicate 10 0) (flaky_world 5))
          = Inl (UploadChunkFailed 1
                  (RetriesExhausted 1 5 lastError 10 ''videos'' 1700000000001))"
    by (simp add: MAX_RETRIES_def flaky_world_def session_defs)
  have fates: "map (upload_fate (flaky_world 4)) [0..<MAX_RETRIES]
                 = [TimedOut, TimedOut, TimedOut, TimedOut, Stored]"
    "map (upload_fate (flaky_world 5)) [0..<MAX_RETRIES]
       = [TimedOut, TimedOut, TimedOut, TimedOut, TimedOut]"
    by (simp_all add: flaky_world_def MAX_RETRIES_def upt_rec)
  from flaky_found [of 4] second_chunk_absent h4 fates c4 c5 show ?thesis by blast
qed

theorem backoff_delays_witness:
  "db_fate (flaky_world 2) 0 = None \<and> db (flaky_world 2) ''a1b2'' = Some partial_session
   \<and> 1 \<notin> chunkIndex ` set (uploadedChunks partial_session)
   \<and> map (upload_fate (flaky_world 2)) [0..<3] = [TimedOut, TimedOut, Stored]
   \<and> 2 < MAX_RETRIES
   \<and> map (random (flaky_world 2)) [0..<2] = [1 / 2, 1 / 2]
   \<and> calls (snd (uploadChunk ''a1b2'' 1 (replicate 10 0) (flaky_world 2)))
       = [Upload ''videos'' (chunkFilename ''videos'' ''a1b2'' 1700000000000 1 ''.MKV'')
            (Bytes (replicate 10 0)) False,
          Sleep 3000,
          Upload ''videos'' (chunkFilename ''videos'' ''a1b2'' 1700000000000 1 ''.MKV'')
            (Bytes (replicate 10 0)) False,
          Sleep 5000,
          Upload ''videos'' (chunkFilename ''videos'' ''a1b2'' 1700000000000 1 ''.MKV'')
            (Bytes (replicate 10 0)) False]"
proof -
  have fails: "\<forall>j<2. upload_fate (flaky_world 2) j \<noteq> Stored"
    by (simp add: flaky_world_def)
  have k: "2 < MAX_RETRIES" by (simp add: MAX_RETRIES_def)
  have after: "upload_fate (flaky_world 2) 2 = Stored \<or> 2 + 1 = MAX_RETRIES"
    by (simp add: flaky_world_def)
  have rand: "\<forall>j<2. 0 \<le> random (flaky_world 2) j \<and> random (flaky_world 2) j < 1"
    by (simp add: flaky_world_def session_defs)
  have two: "[0..<2] = [0, 1]" by (simp add: upt_rec)
  from backoff_delays [OF flaky_found [of 2] second_chunk_absent fails k after rand, where buf = "replicate 10 0"]
  have "calls (snd (uploadChunk ''a1b2'' 1 (replicate 10 0) (flaky_world 2)))
       = [Upload ''videos'' (chunkFilename ''videos'' ''a1b2'' 1700000000000 1 ''.MKV'')
            (Bytes (replicate 10 0)) False,
          Sleep 3000,
          Upload ''videos'' (chunkFilename ''videos'' ''a1b2'' 1700000000000 1 ''.MKV'')
            (Bytes (replicate 10 0)) False,
          Sleep 5000,
          Upload ''videos'' (chunkFilename ''videos'' ''a1b2'' 1700000000000 1 ''.MKV'')
            (Bytes (replicate 10 0)) False]"
    by (simp add: two flaky_world_def session_defs extname_Lecture RETRY_DELAY_BASE_def)
  moreover have "map (upload_fate (flaky_world 2)) [0..<3] = [TimedOut, TimedOut, Stored]"
    "map (random (flaky_world 2)) [0..<2] = [1 / 2, 1 / 2]"
    by (simp_all add: flaky_world_def session_defs upt_rec)
  ultimately show ?thesis using flaky_found [of 2] second_chunk_absent k by blast
qed


subsection \<open>Completion\<close>

lemma complete_already:
  assumes "db_fate w 0 = None" "db w vid = Some cv" "isComplete cv"
    "finalVideoUrl cv = Some url" "url \<noteq> []"
  shows "completeChunkedUpload e vid w
           = (Inr (AlreadyCompleted vid url (sort_key chunkIndex (uploadedChunks cv))),
              w\<lparr>db_fate := shift (db_fate w)\<rparr>)"
  using assms
  by (simp add: completeChunkedUpload_def completeChunkedUpload_try_def findOne_def)

lemma assembleManifest_completed:
  assumes "fst (assembleManifest e vid cv w) = Inr res"
  shows "\<exists>r cv'. res = Completed r \<and> manifestUrl r = secure_url r
           \<and> db (snd (assembleManifest e vid cv w)) (videoId cv) = Some cv'
           \<and> finalVideoUrl cv' = Some (secure_url r) \<and> isComplete cv' = isComplete cv
           \<and> uploadedChunks cv' = sort_key chunkIndex (uploadedChunks cv)"
  using assms
  by (auto simp: assembleManifest_def Let_def save_def split: prod.splits sum.splits option.splits)

lemma complete_ok:
  assumes "fst (completeChunkedUpload e vid w) = Inr res"
  shows "completeChunkedUpload_try e vid w = (Inr res, snd (completeChunkedUpload e vid w))"
proof (cases "completeChunkedUpload_try e vid w")
  case (Pair x w1)
  with assms show ?thesis
    by (cases x) (simp_all add: completeChunkedUpload_def)
qed

lemma complete_try_unfold:
  "completeChunkedUpload_try e vid w =
     (case db_fate w 0 of
        Some m \<Rightarrow> (Inl (Error m), w\<lparr>db_fate := shift (db_fate w)\<rparr>)
      | None \<Rightarrow>
          (case db w vid of
             None \<Rightarrow> (Inl (Error ''Chunked video record not found''),
                       w\<lparr>db_fate := shift (db_fate w)\<rparr>)
           | Some cv \<Rightarrow>
               if \<not> isComplete cv then
                 (Inl (NotAllChunksUploaded (length (uploadedChunks cv)) (totalChunks cv)),
                  w\<lparr>db_fate := shift (db_fate w)\<rparr>)
               else if finalVideoUrl cv \<noteq> None \<and> the (finalVideoUrl cv) \<noteq> [] then
                 (Inr (AlreadyCompleted vid (the (finalVideoUrl cv))
                         (sort_key chunkIndex (uploadedChunks cv))),
                  w\<lparr>db_fate := shift (db_fate w)\<rparr>)
               else assembleManifest e vid cv (w\<lparr>db_fate := shift (db_fate w)\<rparr>)))"
  by (simp add: completeChunkedUpload_try_def findOne_def split: option.splits)

lemma complete_first:
  assumes fin: "fst (completeChunkedUpload e vid w) = Inr (Completed r)"
    and wf: "\<forall>cv. db w vid = Some cv \<longrightarrow> videoId cv = vid"
  shows "\<exists>cv cv'. db w vid = Some cv \<and> manifestUrl r = secure_url r
           \<and> db (snd (completeChunkedUpload e vid w)) vid = Some cv'
           \<and> finalVideoUrl cv' = Some (secure_url r) \<and> isComplete cv'
           \<and> uploadedChunks cv' = sort_key chunkIndex (uploadedChunks cv)"
proof -
  let ?w0 = "w\<lparr>db_fate := shift (db_fate w)\<rparr>"
  let ?w1 = "snd (completeChunkedUpload e vid w)"
  note body = complete_ok [OF fin, unfolded complete_try_unfold]
  from body have answered: "db_fate w 0 = None" by (cases "db_fate w 0") simp_all
  from body answered obtain cv where cv: "db w vid = Some cv" by (cases "db w vid") simp_all
  from body answered cv have complete: "isComplete cv" by (cases "isComplete cv") simp_all
  from body answered cv complete
  have asm: "assembleManifest e vid cv ?w0 = (Inr (Completed r), ?w1)"
    by (auto split: if_splits)
  then have "fst (assembleManifest e vid cv ?w0) = Inr (Completed r)"
    and w1: "snd (assembleManifest e vid cv ?w0) = ?w1"
    by simp_all
  from assembleManifest_completed [OF this(1)] w1
  obtain cv' where "manifestUrl r = secure_url r" "db ?w1 (videoId cv) = Some cv'"
      "finalVideoUrl cv' = Some (secure_url r)" "isComplete cv' = isComplete cv"
      "uploadedChunks cv' = sort_key chunkIndex (uploadedChunks cv)"
    by auto
  with cv complete wf show ?thesis by auto
qed

text \<open>
  C5 (amended). For a session whose \<open>finalVideoUrl\<close> is set and not empty (and which
  is complete, as a session with a manifest is),
  and a lookup that answers, \<open>completeChunkedUpload\<close> returns the result of status
  \<open>already_completed\<close>: the session id, the stored manifest URL as \<open>secure_url\<close>
  and the chunk records sorted by index. It issues no storage call and leaves the session
  collection and the stored objects unchanged. In particular, after a call that completed
  the upload and returned a non-empty manifest URL, a second call returns that identical
  URL without uploading the manifest again. The second result is not the first call's
  result object.
\<close>

theorem complete_idempotent:
  "(db_fate w 0 = None \<and> db w vid = Some cv \<and> isComplete cv
      \<and> finalVideoUrl cv = Some url \<and> url \<noteq> [] \<longrightarrow>
      fst (completeChunkedUpload e vid w)
        = Inr (AlreadyCompleted vid url (sort_key chunkIndex (uploadedChunks cv)))
      \<and> snd (completeChunkedUpload e vid w) = w\<lparr>db_fate := shift (db_fate w)\<rparr>
      \<and> db (snd (completeChunkedUpload e vid w)) = db w
      \<and> objects (snd (completeChunkedUpload e vid w)) = objects w
      \<and> calls (snd (completeChunkedUpload e vid w)) = calls w)
   \<and> ((\<forall>cv. db w vid = Some cv \<longrightarrow> videoId cv = vid)
       \<and> fst (completeChunkedUpload e vid w) = Inr (Completed r) \<and> secure_url r \<noteq> []
       \<and> db_fate (snd (completeChunkedUpload e vid w)) 0 = None \<longrightarrow>
      (\<exists>cs. fst (completeChunkedUpload e vid (snd (completeChunkedUpload e vid w)))
               = Inr (AlreadyCompleted vid (secure_url r) cs))
      \<and> manifestUrl r = secure_url r
      \<and> db (snd (completeChunkedUpload e vid (snd (completeChunkedUpload e vid w))))
          = db (snd (completeChunkedUpload e vid w))
      \<and> objects (snd (completeChunkedUpload e vid (snd (completeChunkedUpload e vid w))))
          = objects (snd (completeChunkedUpload e vid w))
      \<and> calls (snd (completeChunkedUpload e vid (snd (completeChunkedUpload e vid w))))
          = calls (snd (completeChunkedUpload e vid w)))"
proof (intro conjI impI)
  assume h: "db_fate w 0 = None \<and> db w vid = Some cv \<and> isComplete cv
      \<and> finalVideoUrl cv = Some url \<and> url \<noteq> []"
  then have run: "completeChunkedUpload e vid w
           = (Inr (AlreadyCompleted vid url (sort_key chunkIndex (uploadedChunks cv))),
              w\<lparr>db_fate := shift (db_fate w)\<rparr>)"
    using complete_already [of w vid cv url e] by blast
  then show "fst (completeChunkedUpload e vid w)
        = Inr (AlreadyCompleted vid url (sort_key chunkIndex (uploadedChunks cv)))"
    "snd (completeChunkedUpload e vid w) = w\<lparr>db_fate := shift (db_fate w)\<rparr>"
    "db (snd (completeChunkedUpload e vid w)) = db w"
    "objects (snd (completeChunkedUpload e vid w)) = objects w"
    "calls (snd (completeChunkedUpload e vid w)) = calls w"
    by simp_all
next
  let ?w1 = "snd (completeChunkedUpload e vid w)"
  assume h: "(\<forall>cv. db w vid = Some cv \<longrightarrow> videoId cv = vid)
       \<and> fst (completeChunkedUpload e vid w) = Inr (Completed r) \<and> secure_url r \<noteq> []
       \<and> db_fate ?w1 0 = None"
  then obtain cv0 cv' where first: "db w vid = Some cv0" "manifestUrl r = secure_url r"
      "db ?w1 vid = Some cv'" "finalVideoUrl cv' = Some (secure_url r)" "isComplete cv'"
    using complete_first [of e vid w r] by blast
  from h first have again: "completeChunkedUpload e vid ?w1
      = (Inr (AlreadyCompleted vid (secure_url r) (sort_key chunkIndex (uploadedChunks cv'))),
         ?w1\<lparr>db_fate := shift (db_fate ?w1)\<rparr>)"
    using complete_already [of ?w1 vid cv' "secure_url r" e] by blast
  then show "\<exists>cs. fst (completeChunkedUpload e vid ?w1)
               = Inr (AlreadyCompleted vid (secure_url r) cs)"
    "db (snd (completeChunkedUpload e vid ?w1)) = db ?w1"
    "objects (snd (completeChunkedUpload e vid ?w1)) = objects ?w1"
    "calls (snd (completeChunkedUpload e vid ?w1)) = calls ?w1"
    by simp_all
  show "manifestUrl r = secure_url r" by (rule first(2))
qed

lemmas complete_eval = completeChunkedUpload_def completeChunkedUpload_try_def
  assembleManifest_def uploadManifest_def manifestFilename_def attemptsOr1_def
  findOne_def save_def dateNow_def storage_upload_def console_error_def shift_def Let_def
  chunk_record_def MAX_CONCURRENT_CHUNKS_def orDefault_def small_chunks_def extname_Lecture

lemma first_completion:
  "fst (completeChunkedUpload small_chunks ''a1b2'' (holding complete_session))
     = Inr (Completed
         \<lparr>c_videoId = ''a1b2'',
          secure_url = ''https://storage.test/videos/videos/manifests/aws_a1b2_manifest.json'',
          public_id = ''videos/manifests/aws_a1b2_manifest.json'',
          format = ''MKV'', c_bucket = ''videos'', c_size = 25,
          original_filename = ''Lecture.MKV'',
          chunks = map (\<lambda>i. \<lparr>cu_index = i,
                         cu_url = ''https://storage.test/videos/''
                                  @ chunkFilename ''videos'' ''a1b2'' (1700000000000 + i) i ''.MKV'',
                         cu_size = (if i = 2 then 5 else 10), cu_uploadAttempts = 1\<rparr>) [0, 1, 2],
          manifestUrl = ''https://storage.test/videos/videos/manifests/aws_a1b2_manifest.json'',
          totalAttempts = 3, averageAttempts = 1, c_maxConcurrentChunks = 2,
          duration = None\<rparr>)"
  by (simp add: complete_eval session_defs)

lemma second_completion:
  "fst (completeChunkedUpload small_chunks ''a1b2''
          (snd (completeChunkedUpload small_chunks ''a1b2'' (holding complete_session))))
     = Inr (AlreadyCompleted ''a1b2''
              ''https://storage.test/videos/videos/manifests/aws_a1b2_manifest.json''
              [chunk_record 0 10, chunk_record 1 10, chunk_record 2 5])"
  by (simp add: complete_eval session_defs)

theorem complete_idempotent_witness:
  "db_fate (holding finished_session) 0 = None
   \<and> db (holding finished_session) ''a1b2'' = Some finished_session
   \<and> isComplete finished_session
   \<and> finalVideoUrl finished_session
       = Some ''https://storage.test/videos/videos/manifests/aws_a1b2_manifest.json''
   \<and> fst (completeChunkedUpload small_chunks ''a1b2'' (holding finished_session))
       = Inr (AlreadyCompleted ''a1b2''
                ''https://storage.test/videos/videos/manifests/aws_a1b2_manifest.json''
                [chunk_record 0 10, chunk_record 1 10, chunk_record 2 5])
   \<and> calls (snd (completeChunkedUpload small_chunks ''a1b2'' (holding finished_session))) = []
   \<and> (\<exists>r. fst (completeChunkedUpload small_chunks ''a1b2'' (holding complete_session))
               = Inr (Completed r)
            \<and> secure_url r
                = ''https://storage.test/videos/videos/manifests/aws_a1b2_manifest.json'')
   \<and> (\<exists>cs. fst (completeChunkedUpload small_chunks ''a1b2''
                    (snd (completeChunkedUpload small_chunks ''a1b2'' (holding complete_session))))
               = Inr (AlreadyCompleted ''a1b2''
                        ''https://storage.test/videos/videos/manifests/aws_a1b2_manifest.json''
                        cs))
   \<and> calls (snd (completeChunkedUpload small_chunks ''a1b2''
                    (snd (completeChunkedUpload small_chunks ''a1b2'' (holding complete_session)))))
       = calls (snd (completeChunkedUpload small_chunks ''a1b2'' (holding complete_session)))"
proof -
  let ?url = "''https://storage.test/videos/videos/manifests/aws_a1b2_manifest.json''"
  let ?w = "holding complete_session"
  let ?w1 = "snd (completeChunkedUpload small_chunks ''a1b2'' ?w)"
  have h1: "db_fate (holding finished_session) 0 = None
            \<and> db (holding finished_session) ''a1b2'' = Some finished_session
            \<and> isComplete finished_session \<and> finalVideoUrl finished_session = Some ?url
            \<and> ?url \<noteq> []"
    by (simp add: session_defs)
  from complete_idempotent [where w = "holding finished_session" and vid = "''a1b2''"
         and cv = finished_session and url = ?url and e = small_chunks] h1
  have c1: "fst (completeChunkedUpload small_chunks ''a1b2'' (holding finished_session))
              = Inr (AlreadyCompleted ''a1b2'' ?url
                       [chunk_record 0 10, chunk_record 1 10, chunk_record 2 5])
            \<and> calls (snd (completeChunkedUpload small_chunks ''a1b2'' (holding finished_session)))
                = []"
    by (simp add: session_defs chunk_record_def)
  obtain r where r: "fst (completeChunkedUpload small_chunks ''a1b2'' ?w) = Inr (Completed r)"
      "secure_url r = ?url"
    using first_completion by simp
  have wf: "\<forall>cv. db ?w ''a1b2'' = Some cv \<longrightarrow> videoId cv = ''a1b2''"
    by (simp add: session_defs)
  have fate: "db_fate ?w1 0 = None"
    by (simp add: complete_eval session_defs)
  from complete_idempotent [where w = ?w and vid = "''a1b2''" and e = small_chunks and r = r]
       wf r fate
  have c2: "(\<exists>cs. fst (completeChunkedUpload small_chunks ''a1b2'' ?w1)
                     = Inr (AlreadyCompleted ''a1b2'' ?url cs))
            \<and> calls (snd (completeChunkedUpload small_chunks ''a1b2'' ?w1)) = calls ?w1"
    by simp
  from h1 c1 r c2 show ?thesis by blast
qed

text \<open>
  The claim as stated fails on the result object: the completing call returns the result
  of status \<open>completed\<close>, the second call the one of status \<open>already_completed\<close>.
\<close>

theorem complete_result_counterexample:
  "fst (completeChunkedUpload small_chunks ''a1b2''
          (snd (completeChunkedUpload small_chunks ''a1b2'' (holding complete_session))))
     = Inr (AlreadyCompleted ''a1b2''
              ''https://storage.test/videos/videos/manifests/aws_a1b2_manifest.json''
              [chunk_record 0 10, chunk_record 1 10, chunk_record 2 5])
   \<and> fst (completeChunkedUpload small_chunks ''a1b2''
            (snd (completeChunkedUpload small_chunks ''a1b2'' (holding complete_session))))
       \<noteq> fst (completeChunkedUpload small_chunks ''a1b2'' (holding complete_session))"
  using first_completion second_completion by simp

end
